theory Spec2Isabelle
  imports Main "HOL-Library.Log_Nat" "HOL-Library.Word" "HOL-Library.Multiset" "HOL-Library.Sublist"
begin

section \<open>Machine numbers\<close>

text \<open>
  Go's \<open>int64\<close> is a 64-bit word read as a signed number. Go's \<open>float64\<close> is modelled by
  the rational it denotes: every arithmetic operation computes the exact result and rounds
  it to the nearest number with a 53-bit significand, ties to even. The exponent is not
  bounded, so infinities, NaN and subnormal numbers are outside the model; the values this
  program computes (an \<open>int64\<close> divided by 1000, sums and products of such) stay far from
  both ends of the exponent range.
\<close>

type_synonym int64 = "64 word"

type_synonym float64 = rat

definition pow2 :: "int \<Rightarrow> rat" where
  "pow2 e = (if 0 \<le> e then 2 ^ nat e else 1 / 2 ^ nat (- e))"

definition ilog2 :: "rat \<Rightarrow> int" where
  \<comment> \<open>for \<open>0 < x\<close>: the exponent \<open>e\<close> with \<open>2 ^ e \<le> x < 2 ^ (e + 1)\<close>\<close>
  "ilog2 x = (if 1 \<le> x then bitlen \<lfloor>x\<rfloor> - 1 else - bitlen (\<lceil>1 / x\<rceil> - 1))"

definition round_half_even :: "rat \<Rightarrow> int" where
  "round_half_even q =
     (let f = \<lfloor>q\<rfloor>; r = q - of_int f
      in if r < 1 / 2 then f else if 1 / 2 < r then f + 1 else if even f then f else f + 1)"

definition f64_round :: "rat \<Rightarrow> float64" where
  "f64_round x =
     (if x = 0 then 0
      else let u = pow2 (ilog2 \<bar>x\<bar> - 52)
           in of_int (round_half_even (x / u)) * u)"

definition f64_add :: "float64 \<Rightarrow> float64 \<Rightarrow> float64" where
  "f64_add a b = f64_round (a + b)"

definition f64_mul :: "float64 \<Rightarrow> float64 \<Rightarrow> float64" where
  "f64_mul a b = f64_round (a * b)"

definition f64_div :: "float64 \<Rightarrow> float64 \<Rightarrow> float64" where
  "f64_div a b = f64_round (a / b)"

definition f64_of_int64 :: "int64 \<Rightarrow> float64" where
  \<comment> \<open>the conversion \<open>float64(n)\<close>\<close>
  "f64_of_int64 n = f64_round (of_int (sint n))"

definition trunc_toward_zero :: "rat \<Rightarrow> int" where
  "trunc_toward_zero x = (if 0 \<le> x then \<lfloor>x\<rfloor> else \<lceil>x\<rceil>)"

definition int64_of_f64 :: "float64 \<Rightarrow> int64 option" where
  \<comment> \<open>the conversion \<open>int64(x)\<close>: the fraction is discarded; Go leaves the result
      implementation-dependent when the truncated value does not fit, which is \<open>None\<close> here\<close>
  "int64_of_f64 x =
     (let t = trunc_toward_zero x
      in if - (2 ^ 63) \<le> t \<and> t < 2 ^ 63 then Some (word_of_int t) else None)"

definition int_of_f64 :: "(float64 \<Rightarrow> int64) \<Rightarrow> float64 \<Rightarrow> int64" where
  \<comment> \<open>the conversion \<open>int(x)\<close>, \<open>int\<close> being 64 bits wide: the fraction is discarded;
      when the truncated value does not fit, the result is the implementation's, which is
      the parameter \<open>int_overflow\<close>\<close>
  "int_of_f64 int_overflow x = (case int64_of_f64 x of Some n \<Rightarrow> n | None \<Rightarrow> int_overflow x)"

definition decimal3 :: "int \<Rightarrow> float64" where
  \<comment> \<open>the \<open>float64\<close> of the decimal numeral with three fractional digits \<open>k / 1000\<close>\<close>
  "decimal3 k = f64_round (of_int k / 1000)"

section \<open>Unit conversion helpers of package ynab\<close>

definition MilliunitsToFloat :: "int64 \<Rightarrow> float64" where
  "MilliunitsToFloat milliunits = f64_div (f64_of_int64 milliunits) 1000"

definition FloatToMilliunits :: "float64 \<Rightarrow> int64 option" where
  "FloatToMilliunits amount = int64_of_f64 (f64_mul amount 1000)"

section \<open>Data model of package ynab\<close>

text \<open>
  The structs of the API types, field by field. A field is named after the Go field, with
  a prefix for its struct, since several structs share field names.
\<close>

record Account =
  acct_ID :: string
  acct_Name :: string
  acct_Type :: string
  acct_OnBudget :: bool
  acct_Closed :: bool
  acct_Note :: string
  acct_Balance :: int64
  acct_ClearedBalance :: int64
  acct_UnclearedBalance :: int64
  acct_TransferPayeeID :: string
  acct_DirectImportLinked :: bool
  acct_DirectImportInError :: bool
  acct_Deleted :: bool

record SubTransaction =
  sub_ID :: string
  sub_TransactionID :: string
  sub_Amount :: int64
  sub_Memo :: string
  sub_PayeeID :: string
  sub_PayeeName :: string
  sub_CategoryID :: string
  sub_CategoryName :: string
  sub_TransferAccountID :: string
  sub_TransferTransactionID :: string
  sub_Deleted :: bool

record Transaction =
  tx_ID :: string
  tx_Date :: string
  tx_Amount :: int64
  tx_Memo :: string
  tx_Cleared :: string
  tx_Approved :: bool
  tx_FlagColor :: string
  tx_FlagName :: string
  tx_AccountID :: string
  tx_AccountName :: string
  tx_PayeeID :: string
  tx_PayeeName :: string
  tx_CategoryID :: string
  tx_CategoryName :: string
  tx_TransferAccountID :: string
  tx_TransferTransactionID :: string
  tx_MatchedTransactionID :: string
  tx_ImportID :: string
  tx_ImportPayeeName :: string
  tx_ImportPayeeNameOriginal :: string
  tx_DebtTransactionType :: string
  tx_Deleted :: bool
  tx_Subtransactions :: "SubTransaction list"

record Category =
  cat_ID :: string
  cat_CategoryGroupID :: string
  cat_CategoryGroupName :: string
  cat_Name :: string
  cat_Hidden :: bool
  cat_OriginalCategoryGroupID :: string
  cat_Note :: string
  cat_Budgeted :: int64
  cat_Activity :: int64
  cat_Balance :: int64
  cat_GoalType :: string
  cat_GoalDay :: int
  cat_GoalCadence :: int
  cat_GoalCadenceFrequency :: int
  cat_GoalCreationMonth :: string
  cat_GoalTarget :: int64
  cat_GoalTargetMonth :: string
  cat_GoalPercentageComplete :: int
  cat_GoalMonthsToBudget :: int
  cat_GoalUnderFunded :: int64
  cat_GoalOverallFunded :: int64
  cat_GoalOverallLeft :: int64
  cat_Deleted :: bool

record CategoryGroup =
  grp_ID :: string
  grp_Name :: string
  grp_Hidden :: bool
  grp_Deleted :: bool
  grp_Categories :: "Category list"

record Payee =
  payee_ID :: string
  payee_Name :: string
  payee_TransferAccountID :: string
  payee_Deleted :: bool

text \<open>The \<open>error\<close> member of \<open>APIErrorResponse\<close>.\<close>

record APIErrorResponse =
  apierr_ID :: string
  apierr_Name :: string
  apierr_Detail :: string

text \<open>The \<open>data\<close> members of the response wrappers.\<close>

record AccountsResponse =
  ar_Accounts :: "Account list"
  ar_ServerKnowledge :: int64

record TransactionsResponse =
  tr_Transactions :: "Transaction list"
  tr_ServerKnowledge :: int64

record CategoriesResponse =
  cr_CategoryGroups :: "CategoryGroup list"
  cr_ServerKnowledge :: int64

record PayeesResponse =
  pr_Payees :: "Payee list"
  pr_ServerKnowledge :: int64

record TransactionQuery =
  SinceDate :: string
  Type :: string

section \<open>Errors and formatting\<close>

text \<open>
  A Go \<open>error\<close> made by \<open>fmt.Errorf\<close>: its message, and the error it wraps when the
  format has a \<open>%w\<close> verb.
\<close>

datatype error = Errorf (Error: string) (Unwrap: "error option")

definition wrapf :: "string \<Rightarrow> error \<Rightarrow> error" where
  \<comment> \<open>\<open>fmt.Errorf(text + "%w", err)\<close>\<close>
  "wrapf text err = Errorf (text @ Error err) (Some err)"

definition digit_char :: "nat \<Rightarrow> char" where
  "digit_char d = char_of (48 + d)"

fun nat_decimal :: "nat \<Rightarrow> string" where
  "nat_decimal n = (if n < 10 then [digit_char n] else nat_decimal (n div 10) @ [digit_char (n mod 10)])"

declare nat_decimal.simps [simp del]

definition fmt_d :: "int \<Rightarrow> string" where
  \<comment> \<open>the verb \<open>%d\<close>\<close>
  "fmt_d i = (if i < 0 then CHR ''-'' # nat_decimal (nat (- i)) else nat_decimal (nat i))"

section \<open>The HTTP client (package ynab)\<close>

text \<open>
  What the client does not own is a parameter: the \<open>runtime\<close> gives the answers of the
  standard library and of the network. \<open>http_Do req n\<close> is the outcome of the \<open>n\<close>-th
  execution (from 0) of the request within one call of \<open>doRequest\<close>. The effects of a call
  are returned as a trace beside its result.
\<close>

record request =
  req_method :: string
  req_url :: string
  req_header :: "(string \<times> string) list"
  req_body :: "string option"

datatype do_outcome =
    DoFails error               \<comment> \<open>\<open>httpClient.Do\<close> returns an error\<close>
  | ReadFails int error         \<comment> \<open>a response arrives, \<open>io.ReadAll\<close> of its body fails\<close>
  | Response int string         \<comment> \<open>status code and body\<close>

datatype effect =
    Sleep int                   \<comment> \<open>\<open>time.Sleep\<close>, the duration in nanoseconds\<close>
  | HttpDo request

record 'b runtime =
  json_Marshal :: "'b \<Rightarrow> error + string"
  http_NewRequest :: "string \<Rightarrow> string \<Rightarrow> error option"
  http_Do :: "request \<Rightarrow> nat \<Rightarrow> do_outcome"
  url_QueryEscape :: "string \<Rightarrow> string"
  unmarshal_APIErrorResponse :: "string \<Rightarrow> error + APIErrorResponse"
  unmarshal_AccountsResponse :: "string \<Rightarrow> error + AccountsResponse"
  unmarshal_TransactionsResponse :: "string \<Rightarrow> error + TransactionsResponse"
  unmarshal_CategoriesResponse :: "string \<Rightarrow> error + CategoriesResponse"
  unmarshal_PayeesResponse :: "string \<Rightarrow> error + PayeesResponse"

record Client =
  accessToken :: string

definition baseURL :: string where
  "baseURL = ''https://api.ynab.com/v1''"

definition maxRetries :: nat where
  "maxRetries = 3"

definition Second :: int where
  "Second = 1000000000"

definition StatusTooManyRequests :: int where
  "StatusTooManyRequests = 429"

definition the_request :: "Client \<Rightarrow> string \<Rightarrow> string \<Rightarrow> string option \<Rightarrow> bool \<Rightarrow> request" where
  \<comment> \<open>the request an attempt builds: \<open>http.NewRequest\<close>, then the \<open>Header.Set\<close> calls\<close>
  "the_request c method path bodyReader hasBody =
     \<lparr>req_method = method, req_url = baseURL @ path,
      req_header = [(''Authorization'', ''Bearer '' @ accessToken c)]
                   @ (if hasBody then [(''Content-Type'', ''application/json'')] else [])
                   @ [(''Accept'', ''application/json'')],
      req_body = bodyReader\<rparr>"

text \<open>
  One iteration of the loop of \<open>doRequest\<close>: it either ends the call (\<open>Return\<close>) or records
  the error and goes on (\<open>Continue\<close>, the \<open>continue\<close> statements of the source).
\<close>

datatype 'r iteration = Continue error | Return "error + 'r option"

definition doRequest_attempt ::
  "'b runtime \<Rightarrow> Client \<Rightarrow> string \<Rightarrow> string \<Rightarrow> 'b option \<Rightarrow> (string \<Rightarrow> error + 'r) option
    \<Rightarrow> nat \<Rightarrow> 'r iteration \<times> effect list" where
  "doRequest_attempt rt c method path body result attempt =
     (let backoff = (if 0 < attempt then [Sleep (push_bit (attempt - 1) 1 * Second)] else []) in
      case (case body of None \<Rightarrow> Inr None
            | Some b \<Rightarrow> (case json_Marshal rt b of Inl err \<Rightarrow> Inl err | Inr jsonBody \<Rightarrow> Inr (Some jsonBody))) of
        Inl err \<Rightarrow> (Return (Inl (wrapf ''failed to marshal request body: '' err)), backoff)
      | Inr bodyReader \<Rightarrow>
          (let url = baseURL @ path in
           case http_NewRequest rt method url of
             Some err \<Rightarrow> (Return (Inl (wrapf ''failed to create request: '' err)), backoff)
           | None \<Rightarrow>
               (let req = the_request c method path bodyReader (body \<noteq> None);
                    effects = backoff @ [HttpDo req] in
                case http_Do rt req attempt of
                  DoFails err \<Rightarrow> (Continue (wrapf ''request failed: '' err), effects)
                | ReadFails status err \<Rightarrow> (Continue (wrapf ''failed to read response: '' err), effects)
                | Response status respBody \<Rightarrow>
                    if status = StatusTooManyRequests
                    then (Continue (Errorf ''rate limit exceeded'' None), effects)
                    else if 400 \<le> status
                    then (case unmarshal_APIErrorResponse rt respBody of
                            Inr apiErr \<Rightarrow>
                              if apierr_Detail apiErr \<noteq> ''''
                              then (Return (Inl (Errorf (''YNAB API error ('' @ fmt_d status @ ''): ''
                                                          @ apierr_Detail apiErr) None)), effects)
                              else (Return (Inl (Errorf (''YNAB API error: status '' @ fmt_d status) None)), effects)
                          | Inl _ \<Rightarrow>
                              (Return (Inl (Errorf (''YNAB API error: status '' @ fmt_d status) None)), effects))
                    else (case result of
                            None \<Rightarrow> (Return (Inr None), effects)
                          | Some unmarshal \<Rightarrow>
                              (case unmarshal respBody of
                                 Inl err \<Rightarrow> (Return (Inl (wrapf ''failed to parse response: '' err)), effects)
                               | Inr r \<Rightarrow> (Return (Inr (Some r)), effects))))))"

definition exhausted :: "error option \<Rightarrow> error" where
  \<comment> \<open>\<open>fmt.Errorf("request failed after %d attempts: %w", maxRetries, lastErr)\<close>\<close>
  "exhausted lastErr =
     (case lastErr of
        Some err \<Rightarrow> wrapf (''request failed after '' @ fmt_d (int maxRetries) @ '' attempts: '') err
      | None \<Rightarrow> Errorf (''request failed after '' @ fmt_d (int maxRetries) @ '' attempts: %!w(<nil>)'') None)"

function doRequest_loop ::
  "'b runtime \<Rightarrow> Client \<Rightarrow> string \<Rightarrow> string \<Rightarrow> 'b option \<Rightarrow> (string \<Rightarrow> error + 'r) option
    \<Rightarrow> nat \<Rightarrow> error option \<Rightarrow> effect list \<Rightarrow> (error + 'r option) \<times> effect list" where
  "doRequest_loop rt c method path body result attempt lastErr trace =
     (if attempt < maxRetries
      then (case doRequest_attempt rt c method path body result attempt of
              (Continue err, effects) \<Rightarrow>
                doRequest_loop rt c method path body result (Suc attempt) (Some err) (trace @ effects)
            | (Return r, effects) \<Rightarrow> (r, trace @ effects))
      else (Inl (exhausted lastErr), trace))"
  by pat_completeness auto
termination
  by (relation "measure (\<lambda>(rt, c, method, path, body, result, attempt, lastErr, trace). maxRetries - attempt)")
     auto

declare doRequest_loop.simps [simp del]

definition doRequest ::
  "'b runtime \<Rightarrow> Client \<Rightarrow> string \<Rightarrow> string \<Rightarrow> 'b option \<Rightarrow> (string \<Rightarrow> error + 'r) option
    \<Rightarrow> (error + 'r option) \<times> effect list" where
  "doRequest rt c method path body result = doRequest_loop rt c method path body result 0 None []"

definition get ::
  "'b runtime \<Rightarrow> Client \<Rightarrow> string \<Rightarrow> (string \<Rightarrow> error + 'r) option
    \<Rightarrow> (error + 'r option) \<times> effect list" where
  "get rt c path result = doRequest rt c ''GET'' path None result"

definition post ::
  "'b runtime \<Rightarrow> Client \<Rightarrow> string \<Rightarrow> 'b \<Rightarrow> (string \<Rightarrow> error + 'r) option
    \<Rightarrow> (error + 'r option) \<times> effect list" where
  "post rt c path body result = doRequest rt c ''POST'' path (Some body) result"

definition put ::
  "'b runtime \<Rightarrow> Client \<Rightarrow> string \<Rightarrow> 'b \<Rightarrow> (string \<Rightarrow> error + 'r) option
    \<Rightarrow> (error + 'r option) \<times> effect list" where
  "put rt c path body result = doRequest rt c ''PUT'' path (Some body) result"

section \<open>Typed operations of the client\<close>

definition ListAccounts :: "'b runtime \<Rightarrow> Client \<Rightarrow> string \<Rightarrow> (error + Account list) \<times> effect list" where
  "ListAccounts rt c budgetID =
     (let path = ''/budgets/'' @ budgetID @ ''/accounts'' in
      case get rt c path (Some (unmarshal_AccountsResponse rt)) of
        (Inl err, trace) \<Rightarrow> (Inl err, trace)
      | (Inr resp, trace) \<Rightarrow> (Inr (case resp of Some r \<Rightarrow> ar_Accounts r | None \<Rightarrow> []), trace))"

definition GetAccount :: "'b runtime \<Rightarrow> Client \<Rightarrow> string \<Rightarrow> string \<Rightarrow> (error + Account) \<times> effect list" where
  "GetAccount rt c budgetID accountID =
     (case ListAccounts rt c budgetID of
        (Inl err, trace) \<Rightarrow> (Inl err, trace)
      | (Inr accounts, trace) \<Rightarrow>
          (case find (\<lambda>account. acct_ID account = accountID) accounts of
             Some account \<Rightarrow> (Inr account, trace)
           | None \<Rightarrow> (Inl (Errorf (''account not found: '' @ accountID) None), trace)))"

definition ListCategories :: "'b runtime \<Rightarrow> Client \<Rightarrow> string \<Rightarrow> (error + CategoryGroup list) \<times> effect list" where
  "ListCategories rt c budgetID =
     (let path = ''/budgets/'' @ budgetID @ ''/categories'' in
      case get rt c path (Some (unmarshal_CategoriesResponse rt)) of
        (Inl err, trace) \<Rightarrow> (Inl err, trace)
      | (Inr resp, trace) \<Rightarrow> (Inr (case resp of Some r \<Rightarrow> cr_CategoryGroups r | None \<Rightarrow> []), trace))"

text \<open>The nested loops of \<open>GetCategory\<close>: the groups in order, the categories of each in order.\<close>

fun search_groups :: "CategoryGroup list \<Rightarrow> string \<Rightarrow> Category option" where
  "search_groups [] categoryID = None"
| "search_groups (grp # groups) categoryID =
     (case find (\<lambda>category. cat_ID category = categoryID) (grp_Categories grp) of
        Some category \<Rightarrow> Some category
      | None \<Rightarrow> search_groups groups categoryID)"

definition GetCategory :: "'b runtime \<Rightarrow> Client \<Rightarrow> string \<Rightarrow> string \<Rightarrow> (error + Category) \<times> effect list" where
  "GetCategory rt c budgetID categoryID =
     (case ListCategories rt c budgetID of
        (Inl err, trace) \<Rightarrow> (Inl err, trace)
      | (Inr categoryGroups, trace) \<Rightarrow>
          (case search_groups categoryGroups categoryID of
             Some category \<Rightarrow> (Inr category, trace)
           | None \<Rightarrow> (Inl (Errorf (''category not found: '' @ categoryID) None), trace)))"

definition ListPayees :: "'b runtime \<Rightarrow> Client \<Rightarrow> string \<Rightarrow> (error + Payee list) \<times> effect list" where
  "ListPayees rt c budgetID =
     (let path = ''/budgets/'' @ budgetID @ ''/payees'' in
      case get rt c path (Some (unmarshal_PayeesResponse rt)) of
        (Inl err, trace) \<Rightarrow> (Inl err, trace)
      | (Inr resp, trace) \<Rightarrow> (Inr (case resp of Some r \<Rightarrow> pr_Payees r | None \<Rightarrow> []), trace))"

definition GetPayee :: "'b runtime \<Rightarrow> Client \<Rightarrow> string \<Rightarrow> string \<Rightarrow> (error + Payee) \<times> effect list" where
  "GetPayee rt c budgetID payeeID =
     (case ListPayees rt c budgetID of
        (Inl err, trace) \<Rightarrow> (Inl err, trace)
      | (Inr payees, trace) \<Rightarrow>
          (case find (\<lambda>payee. payee_ID payee = payeeID) payees of
             Some payee \<Rightarrow> (Inr payee, trace)
           | None \<Rightarrow> (Inl (Errorf (''payee not found: '' @ payeeID) None), trace)))"

fun join_amp :: "string list \<Rightarrow> string" where
  "join_amp [] = ''''"
| "join_amp [s] = s"
| "join_amp (s # t # ss) = s @ ''&'' @ join_amp (t # ss)"

definition query_suffix :: "'b runtime \<Rightarrow> TransactionQuery option \<Rightarrow> string" where
  \<comment> \<open>the query string both transaction listings append; \<open>url.Values.Encode\<close> writes the
      keys in sorted order, which is the order they are added in\<close>
  "query_suffix rt query =
     (case query of
        None \<Rightarrow> ''''
      | Some q \<Rightarrow>
          (let params = (if SinceDate q \<noteq> '''' then [(''since_date'', SinceDate q)] else [])
                        @ (if Type q \<noteq> '''' then [(''type'', Type q)] else [])
           in if 0 < length params
              then ''?'' @ join_amp (map (\<lambda>(k, v). url_QueryEscape rt k @ ''='' @ url_QueryEscape rt v) params)
              else ''''))"

definition ListTransactions ::
  "'b runtime \<Rightarrow> Client \<Rightarrow> string \<Rightarrow> TransactionQuery option \<Rightarrow> (error + Transaction list) \<times> effect list" where
  "ListTransactions rt c budgetID query =
     (let path = ''/budgets/'' @ budgetID @ ''/transactions'' @ query_suffix rt query in
      case get rt c path (Some (unmarshal_TransactionsResponse rt)) of
        (Inl err, trace) \<Rightarrow> (Inl err, trace)
      | (Inr resp, trace) \<Rightarrow> (Inr (case resp of Some r \<Rightarrow> tr_Transactions r | None \<Rightarrow> []), trace))"

definition ListAccountTransactions ::
  "'b runtime \<Rightarrow> Client \<Rightarrow> string \<Rightarrow> string \<Rightarrow> TransactionQuery option
    \<Rightarrow> (error + Transaction list) \<times> effect list" where
  "ListAccountTransactions rt c budgetID accountID query =
     (let path = ''/budgets/'' @ budgetID @ ''/accounts/'' @ accountID @ ''/transactions''
                 @ query_suffix rt query in
      case get rt c path (Some (unmarshal_TransactionsResponse rt)) of
        (Inl err, trace) \<Rightarrow> (Inl err, trace)
      | (Inr resp, trace) \<Rightarrow> (Inr (case resp of Some r \<Rightarrow> tr_Transactions r | None \<Rightarrow> []), trace))"

section \<open>Vocabulary of the retry claims\<close>

text \<open>
  The outcomes the loop answers with \<open>continue\<close>, and the error it keeps for each: a
  failure of \<open>Do\<close>, a failure to read the body, and the status 429.
\<close>

definition transient :: "do_outcome \<Rightarrow> error option" where
  "transient out =
     (case out of
        DoFails err \<Rightarrow> Some (wrapf ''request failed: '' err)
      | ReadFails status err \<Rightarrow> Some (wrapf ''failed to read response: '' err)
      | Response status respBody \<Rightarrow>
          if status = 429 then Some (Errorf ''rate limit exceeded'' None) else None)"

definition attempt_effects :: "request \<Rightarrow> nat \<Rightarrow> effect list" where
  \<comment> \<open>one attempt: after the first, a sleep of \<open>2 ^ (attempt - 1)\<close> seconds, then the request\<close>
  "attempt_effects req attempt =
     (if 0 < attempt then [Sleep (2 ^ (attempt - 1) * 1000000000)] else []) @ [HttpDo req]"

definition attempts_trace :: "request \<Rightarrow> nat \<Rightarrow> effect list" where
  \<comment> \<open>the attempts \<open>0, \<dots>, n - 1\<close> in a row\<close>
  "attempts_trace req n = concat (map (attempt_effects req) [0..<n])"

definition marshalled :: "'b runtime \<Rightarrow> 'b option \<Rightarrow> string option option" where
  \<comment> \<open>the body as sent, when it can be marshalled\<close>
  "marshalled rt body =
     (case body of
        None \<Rightarrow> Some None
      | Some b \<Rightarrow> (case json_Marshal rt b of Inl err \<Rightarrow> None | Inr jsonBody \<Rightarrow> Some (Some jsonBody)))"

definition transport_message :: "string \<Rightarrow> bool" where
  \<comment> \<open>the formats of the errors \<open>doRequest\<close> makes\<close>
  "transport_message m \<longleftrightarrow>
     prefix ''failed to marshal request body: '' m
     \<or> prefix ''failed to create request: '' m
     \<or> prefix ''YNAB API error'' m
     \<or> prefix ''failed to parse response: '' m
     \<or> prefix ''request failed after '' m"

section \<open>Example runtimes\<close>

text \<open>
  A runtime for the worked examples: the network answers the attempts from a list of
  outcomes, the decoders answer from fixed tables.
\<close>

definition example_runtime ::
  "do_outcome list \<Rightarrow> (string \<Rightarrow> error + APIErrorResponse) \<Rightarrow> unit runtime" where
  "example_runtime outcomes decodeErr =
     \<lparr>json_Marshal = (\<lambda>_. Inr ''{}''),
      http_NewRequest = (\<lambda>method url. None),
      http_Do = (\<lambda>req n. if n < length outcomes then outcomes ! n else DoFails (Errorf ''connection refused'' None)),
      url_QueryEscape = (\<lambda>s. s),
      unmarshal_APIErrorResponse = decodeErr,
      unmarshal_AccountsResponse = (\<lambda>b. Inr \<lparr>ar_Accounts = [], ar_ServerKnowledge = 0\<rparr>),
      unmarshal_TransactionsResponse = (\<lambda>b. Inr \<lparr>tr_Transactions = [], tr_ServerKnowledge = 0\<rparr>),
      unmarshal_CategoriesResponse = (\<lambda>b. Inr \<lparr>cr_CategoryGroups = [], cr_ServerKnowledge = 0\<rparr>),
      unmarshal_PayeesResponse = (\<lambda>b. Inr \<lparr>pr_Payees = [], pr_ServerKnowledge = 0\<rparr>)\<rparr>"

definition example_client :: Client where
  "example_client = \<lparr>accessToken = ''token''\<rparr>"

definition not_found_body :: string where
  "not_found_body = ''{error:{detail:transaction not found}}''"

definition example_decodeErr :: "string \<Rightarrow> error + APIErrorResponse" where
  "example_decodeErr b =
     (if b = not_found_body
      then Inr \<lparr>apierr_ID = '''', apierr_Name = '''', apierr_Detail = ''transaction not found''\<rparr>
      else Inl (Errorf ''invalid character'' None))"

definition example_directory :: "Account list \<Rightarrow> CategoryGroup list \<Rightarrow> Payee list \<Rightarrow> unit runtime" where
  \<comment> \<open>every request is answered at once with status 200; the decoders give the lists\<close>
  "example_directory accounts groups payees =
     (example_runtime [Response 200 ''{}''] example_decodeErr)
       \<lparr>unmarshal_AccountsResponse := (\<lambda>b. Inr \<lparr>ar_Accounts = accounts, ar_ServerKnowledge = 0\<rparr>),
        unmarshal_CategoriesResponse := (\<lambda>b. Inr \<lparr>cr_CategoryGroups = groups, cr_ServerKnowledge = 0\<rparr>),
        unmarshal_PayeesResponse := (\<lambda>b. Inr \<lparr>pr_Payees = payees, pr_ServerKnowledge = 0\<rparr>)\<rparr>"

definition example_account :: "string \<Rightarrow> int64 \<Rightarrow> bool \<Rightarrow> bool \<Rightarrow> bool \<Rightarrow> Account" where
  "example_account i balance onBudget isClosed isDeleted =
     \<lparr>acct_ID = i, acct_Name = i, acct_Type = ''checking'', acct_OnBudget = onBudget,
      acct_Closed = isClosed, acct_Note = '''', acct_Balance = balance, acct_ClearedBalance = balance,
      acct_UnclearedBalance = 0, acct_TransferPayeeID = '''', acct_DirectImportLinked = False,
      acct_DirectImportInError = False, acct_Deleted = isDeleted\<rparr>"

definition example_category :: "string \<Rightarrow> bool \<Rightarrow> Category" where
  "example_category i deleted =
     \<lparr>cat_ID = i, cat_CategoryGroupID = ''g'', cat_CategoryGroupName = ''g'', cat_Name = i,
      cat_Hidden = False, cat_OriginalCategoryGroupID = '''', cat_Note = '''', cat_Budgeted = 0,
      cat_Activity = 0, cat_Balance = 0, cat_GoalType = '''', cat_GoalDay = 0, cat_GoalCadence = 0,
      cat_GoalCadenceFrequency = 0, cat_GoalCreationMonth = '''', cat_GoalTarget = 0,
      cat_GoalTargetMonth = '''', cat_GoalPercentageComplete = 0, cat_GoalMonthsToBudget = 0,
      cat_GoalUnderFunded = 0, cat_GoalOverallFunded = 0, cat_GoalOverallLeft = 0,
      cat_Deleted = deleted\<rparr>"

definition example_group :: "string \<Rightarrow> Category list \<Rightarrow> CategoryGroup" where
  "example_group i categories =
     \<lparr>grp_ID = i, grp_Name = i, grp_Hidden = False, grp_Deleted = False, grp_Categories = categories\<rparr>"

definition example_payee :: "string \<Rightarrow> bool \<Rightarrow> Payee" where
  "example_payee i deleted =
     \<lparr>payee_ID = i, payee_Name = i, payee_TransferAccountID = '''', payee_Deleted = deleted\<rparr>"

section \<open>Dates (the part of package time the tools use)\<close>

text \<open>
  A \<open>time.Time\<close> that \<open>time.Parse\<close> returns for the layout \<open>2006-01-02\<close> is a calendar day
  at midnight UTC. \<open>time_Parse\<close> follows the parser of the standard library for this one
  layout: four digits, a hyphen, two digits, a hyphen, two digits and nothing after them,
  the month within 1 to 12 and the day within the month. The text of its errors is
  shortened.
\<close>

record date =
  year :: nat
  month :: nat
  day :: nat

definition isDigit :: "char \<Rightarrow> bool" where
  "isDigit ch \<longleftrightarrow> ch \<in> set ''0123456789''"

definition digit_value :: "char \<Rightarrow> nat" where
  "digit_value ch = of_char ch - 48"

definition isLeap :: "nat \<Rightarrow> bool" where
  "isLeap y \<longleftrightarrow> y mod 4 = 0 \<and> (y mod 100 \<noteq> 0 \<or> y mod 400 = 0)"

definition daysBefore :: "nat \<Rightarrow> nat" where
  \<comment> \<open>days of a common year before the first of month \<open>m\<close>; \<open>daysBefore 13 = 365\<close>\<close>
  "daysBefore m = [0, 31, 59, 90, 120, 151, 181, 212, 243, 273, 304, 334, 365] ! (m - 1)"

definition daysIn :: "nat \<Rightarrow> nat \<Rightarrow> nat" where
  "daysIn m y = (if m = 2 \<and> isLeap y then 29 else daysBefore (m + 1) - daysBefore m)"

definition time_Parse :: "string \<Rightarrow> error + date" where
  "time_Parse v =
     (if length v = 10
         \<and> isDigit (v ! 0) \<and> isDigit (v ! 1) \<and> isDigit (v ! 2) \<and> isDigit (v ! 3)
         \<and> v ! 4 = CHR ''-'' \<and> isDigit (v ! 5) \<and> isDigit (v ! 6)
         \<and> v ! 7 = CHR ''-'' \<and> isDigit (v ! 8) \<and> isDigit (v ! 9)
      then (let y = digit_value (v ! 0) * 1000 + digit_value (v ! 1) * 100
                    + digit_value (v ! 2) * 10 + digit_value (v ! 3);
                m = digit_value (v ! 5) * 10 + digit_value (v ! 6);
                d = digit_value (v ! 8) * 10 + digit_value (v ! 9)
            in if m < 1 \<or> 12 < m then Inl (Errorf (''parsing time '' @ v @ '': month out of range'') None)
               else if d < 1 \<or> daysIn m y < d
               then Inl (Errorf (''parsing time '' @ v @ '': day out of range'') None)
               else Inr \<lparr>year = y, month = m, day = d\<rparr>)
      else Inl (Errorf (''parsing time '' @ v) None))"

definition absDays :: "date \<Rightarrow> int" where
  \<comment> \<open>days from 0001-01-01 to the date, in the proleptic Gregorian calendar\<close>
  "absDays t =
     (let y = int (year t) - 1
      in 365 * y + y div 4 - y div 100 + y div 400
         + int (daysBefore (month t)) + (if 2 < month t \<and> isLeap (year t) then 1 else 0)
         + (int (day t) - 1))"

definition Hour :: int where
  "Hour = 3600 * Second"

definition maxDuration :: int where
  "maxDuration = 2 ^ 63 - 1"

definition minDuration :: int where
  "minDuration = - (2 ^ 63)"

definition time_Before :: "date \<Rightarrow> date \<Rightarrow> bool" where
  "time_Before t u \<longleftrightarrow> absDays t < absDays u"

definition time_After :: "date \<Rightarrow> date \<Rightarrow> bool" where
  "time_After t u \<longleftrightarrow> absDays u < absDays t"

definition time_Sub :: "date \<Rightarrow> date \<Rightarrow> int" where
  \<comment> \<open>\<open>t.Sub(u)\<close> in nanoseconds; a difference that does not fit a \<open>Duration\<close> gives the
      largest or the smallest \<open>Duration\<close>\<close>
  "time_Sub t u =
     (let d = (absDays t - absDays u) * 24 * Hour
      in if maxDuration < d then maxDuration else if d < minDuration then minDuration else d)"

definition zero_pad :: "nat \<Rightarrow> nat \<Rightarrow> string" where
  "zero_pad width n = replicate (width - length (nat_decimal n)) CHR ''0'' @ nat_decimal n"

definition zero_Time :: date where
  \<comment> \<open>\<open>time.Time{}\<close>\<close>
  "zero_Time = \<lparr>year = 1, month = 1, day = 1\<rparr>"

section \<open>Helpers of the aggregation tools (package tools)\<close>

definition isTransfer :: "Transaction \<Rightarrow> bool" where
  "isTransfer tx \<longleftrightarrow> tx_TransferAccountID tx \<noteq> ''''"

definition parseDate :: "string \<Rightarrow> error + date" where
  "parseDate dateStr =
     (if dateStr = '''' then Inl (Errorf ''date string is empty'' None)
      else case time_Parse dateStr of
             Inl err \<Rightarrow> Inl (wrapf ''invalid date format, expected YYYY-MM-DD: '' err)
           | Inr t \<Rightarrow> Inr t)"

definition validateDateRange :: "string \<Rightarrow> string \<Rightarrow> error option" where
  "validateDateRange sinceDate untilDate =
     (case parseDate sinceDate of
        Inl err \<Rightarrow> Some (wrapf ''since_date: '' err)
      | Inr since \<Rightarrow>
          (case parseDate untilDate of
             Inl err \<Rightarrow> Some (wrapf ''until_date: '' err)
           | Inr until \<Rightarrow>
               if time_Before until since
               then Some (Errorf ''until_date must be after since_date'' None)
               else (let duration = time_Sub until since
                     in if 730 * 24 * Hour < duration
                        then Some (Errorf ''date range too large (max 2 years), consider using a smaller range for better performance'' None)
                        else None)))"

definition getMonthString :: "date \<Rightarrow> string" where
  \<comment> \<open>\<open>t.Format("2006-01")\<close>\<close>
  "getMonthString t = zero_pad 4 (year t) @ ''-'' @ zero_pad 2 (month t)"

record categorySummary =
  cs_CategoryID :: string
  cs_CategoryName :: string
  cs_CategoryGroupName :: string
  cs_TotalOutflow :: float64
  cs_TotalInflow :: float64
  cs_Net :: float64
  cs_TransactionCount :: int64

record monthSummary =
  ms_Month :: string
  ms_TotalOutflow :: float64
  ms_TotalInflow :: float64
  ms_Net :: float64
  ms_TransactionCount :: int64

record payeeSummary =
  ps_PayeeID :: string
  ps_PayeeName :: string
  ps_TotalOutflow :: float64
  ps_TotalInflow :: float64
  ps_Net :: float64
  ps_TransactionCount :: int64

record accountBalance =
  ab_AccountID :: string
  ab_AccountName :: string
  ab_AccountType :: string
  ab_OnBudget :: bool
  ab_Closed :: bool
  ab_ClearedBalance :: float64
  ab_UnclearedBalance :: float64
  ab_CurrentBalance :: float64

text \<open>
  The aggregation functions build a Go map from string keys to summaries; the map is a
  HOL map, and the body of each \<open>for\<close> loop is a step function folded over the slice
  from left to right.
\<close>

definition category_key :: "Transaction \<Rightarrow> string" where
  "category_key tx = (if tx_CategoryID tx = '''' then ''uncategorized'' else tx_CategoryID tx)"

definition category_step :: "(string \<rightharpoonup> categorySummary) \<Rightarrow> Transaction \<Rightarrow> (string \<rightharpoonup> categorySummary)" where
  "category_step summaries tx =
     (if isTransfer tx then summaries
      else if tx_Deleted tx then summaries
      else
        (let categoryID = category_key tx;
             summary = (case summaries categoryID of
                          Some s \<Rightarrow> s
                        | None \<Rightarrow>
                            (let s = \<lparr>cs_CategoryID = categoryID, cs_CategoryName = tx_CategoryName tx,
                                      cs_CategoryGroupName = '''', cs_TotalOutflow = 0, cs_TotalInflow = 0,
                                      cs_Net = 0, cs_TransactionCount = 0\<rparr>
                             in if categoryID = ''uncategorized''
                                then s\<lparr>cs_CategoryName := ''Uncategorized''\<rparr> else s));
             amount = MilliunitsToFloat (tx_Amount tx);
             summary = (if amount < 0
                        then summary\<lparr>cs_TotalOutflow := f64_add (cs_TotalOutflow summary) (- amount)\<rparr>
                        else summary\<lparr>cs_TotalInflow := f64_add (cs_TotalInflow summary) amount\<rparr>);
             summary = summary\<lparr>cs_Net := f64_add (cs_Net summary) amount\<rparr>;
             summary = summary\<lparr>cs_TransactionCount := cs_TransactionCount summary + 1\<rparr>
         in summaries(categoryID \<mapsto> summary)))"

definition aggregateByCategory :: "Transaction list \<Rightarrow> (string \<rightharpoonup> categorySummary)" where
  "aggregateByCategory transactions = foldl category_step Map.empty transactions"

definition month_init :: "(string \<rightharpoonup> monthSummary) \<Rightarrow> string \<Rightarrow> (string \<rightharpoonup> monthSummary)" where
  "month_init summaries m =
     summaries(m \<mapsto> \<lparr>ms_Month = m, ms_TotalOutflow = 0, ms_TotalInflow = 0, ms_Net = 0,
                       ms_TransactionCount = 0\<rparr>)"

definition month_step :: "(string \<rightharpoonup> monthSummary) \<Rightarrow> Transaction \<Rightarrow> (string \<rightharpoonup> monthSummary)" where
  "month_step summaries tx =
     (if isTransfer tx then summaries
      else if tx_Deleted tx then summaries
      else
        (case parseDate (tx_Date tx) of
           Inl err \<Rightarrow> summaries
         | Inr txDate \<Rightarrow>
             (let m = getMonthString txDate
              in case summaries m of
                   None \<Rightarrow> summaries
                 | Some summary \<Rightarrow>
                     (let amount = MilliunitsToFloat (tx_Amount tx);
                          summary = (if amount < 0
                                     then summary\<lparr>ms_TotalOutflow := f64_add (ms_TotalOutflow summary) (- amount)\<rparr>
                                     else summary\<lparr>ms_TotalInflow := f64_add (ms_TotalInflow summary) amount\<rparr>);
                          summary = summary\<lparr>ms_Net := f64_add (ms_Net summary) amount\<rparr>;
                          summary = summary\<lparr>ms_TransactionCount := ms_TransactionCount summary + 1\<rparr>
                      in summaries(m \<mapsto> summary)))))"

definition aggregateByMonth :: "Transaction list \<Rightarrow> string list \<Rightarrow> (string \<rightharpoonup> monthSummary)" where
  "aggregateByMonth transactions months =
     foldl month_step (foldl month_init Map.empty months) transactions"

definition payee_key :: "Transaction \<Rightarrow> string" where
  "payee_key tx = (if tx_PayeeID tx = '''' then ''no-payee'' else tx_PayeeID tx)"

definition payee_step :: "(string \<rightharpoonup> payeeSummary) \<Rightarrow> Transaction \<Rightarrow> (string \<rightharpoonup> payeeSummary)" where
  "payee_step summaries tx =
     (if isTransfer tx then summaries
      else if tx_Deleted tx then summaries
      else
        (let payeeID = payee_key tx;
             summary = (case summaries payeeID of
                          Some s \<Rightarrow> s
                        | None \<Rightarrow>
                            (let s = \<lparr>ps_PayeeID = payeeID, ps_PayeeName = tx_PayeeName tx,
                                      ps_TotalOutflow = 0, ps_TotalInflow = 0, ps_Net = 0,
                                      ps_TransactionCount = 0\<rparr>
                             in if payeeID = ''no-payee'' then s\<lparr>ps_PayeeName := ''No Payee''\<rparr> else s));
             amount = MilliunitsToFloat (tx_Amount tx);
             summary = (if amount < 0
                        then summary\<lparr>ps_TotalOutflow := f64_add (ps_TotalOutflow summary) (- amount)\<rparr>
                        else summary\<lparr>ps_TotalInflow := f64_add (ps_TotalInflow summary) amount\<rparr>);
             summary = summary\<lparr>ps_Net := f64_add (ps_Net summary) amount\<rparr>;
             summary = summary\<lparr>ps_TransactionCount := ps_TransactionCount summary + 1\<rparr>
         in summaries(payeeID \<mapsto> summary)))"

definition aggregateByPayee :: "Transaction list \<Rightarrow> (string \<rightharpoonup> payeeSummary)" where
  "aggregateByPayee transactions = foldl payee_step Map.empty transactions"

section \<open>The aggregation tools (package tools)\<close>

text \<open>
  A tool handler receives the arguments as decoded JSON and returns a result for the
  caller; the result is kept structured here, before \<open>json.MarshalIndent\<close> renders it.
  The handler's calls of the client are part of the model, so a handler returns the
  trace of its effects as well. Two things Go leaves open are parameters of a handler:
  the order in which \<open>range\<close> visits the keys of a map (\<open>keys\<close>), and the arrangement
  \<open>sort.Slice\<close> gives the slice (\<open>sort_Slice\<close>).
\<close>

datatype arg_value = StringArg string | NumberArg float64 | BoolArg bool | NullArg

datatype 'a CallToolResult = ToolResultError string | ToolResultText 'a

definition string_arg :: "(string \<rightharpoonup> arg_value) \<Rightarrow> string \<Rightarrow> string option" where
  \<comment> \<open>\<open>args[key].(string)\<close>\<close>
  "string_arg args key = (case args key of Some (StringArg s) \<Rightarrow> Some s | _ \<Rightarrow> None)"

definition float_arg :: "(string \<rightharpoonup> arg_value) \<Rightarrow> string \<Rightarrow> float64 option" where
  \<comment> \<open>\<open>args[key].(float64)\<close>\<close>
  "float_arg args key = (case args key of Some (NumberArg x) \<Rightarrow> Some x | _ \<Rightarrow> None)"

definition range_values :: "(string \<rightharpoonup> 'v) \<Rightarrow> string list \<Rightarrow> 'v list" where
  \<comment> \<open>the values of a map in the order \<open>keys\<close> of a \<open>range\<close> over it\<close>
  "range_values summaries keys = List.map_filter summaries keys"

definition until_filter :: "string \<Rightarrow> Transaction list \<Rightarrow> Transaction list" where
  \<comment> \<open>the loop that keeps the transactions dated no later than \<open>untilDate\<close>\<close>
  "until_filter untilDate transactions =
     (let untilTime = (case parseDate untilDate of Inr t \<Rightarrow> t | Inl err \<Rightarrow> zero_Time)
      in filter (\<lambda>tx. case parseDate (tx_Date tx) of
                         Inl err \<Rightarrow> False
                       | Inr txDate \<Rightarrow> \<not> time_After txDate untilTime) transactions)"

record category_result =
  cr_categories :: "categorySummary list"
  cr_total_outflow :: float64
  cr_total_inflow :: float64
  cr_since :: string
  cr_until :: string

definition NewGetSpendingByCategoryTool_handler ::
  "'b runtime \<Rightarrow> Client \<Rightarrow> ((categorySummary \<Rightarrow> categorySummary \<Rightarrow> bool) \<Rightarrow> categorySummary list \<Rightarrow> categorySummary list)
    \<Rightarrow> string list \<Rightarrow> (string \<rightharpoonup> arg_value) option \<Rightarrow> category_result CallToolResult \<times> effect list" where
  "NewGetSpendingByCategoryTool_handler rt client sort_Slice keys arguments =
     (case arguments of
        None \<Rightarrow> (ToolResultError ''Invalid arguments'', [])
      | Some args \<Rightarrow>
     (case string_arg args ''budget_id'' of
        None \<Rightarrow> (ToolResultError ''budget_id is required'', [])
      | Some budgetID \<Rightarrow>
     if budgetID = '''' then (ToolResultError ''budget_id is required'', []) else
     (case string_arg args ''since_date'' of
        None \<Rightarrow> (ToolResultError ''since_date is required (YYYY-MM-DD format)'', [])
      | Some sinceDate \<Rightarrow>
     if sinceDate = '''' then (ToolResultError ''since_date is required (YYYY-MM-DD format)'', []) else
     (case string_arg args ''until_date'' of
        None \<Rightarrow> (ToolResultError ''until_date is required (YYYY-MM-DD format)'', [])
      | Some untilDate \<Rightarrow>
     if untilDate = '''' then (ToolResultError ''until_date is required (YYYY-MM-DD format)'', []) else
     (case validateDateRange sinceDate untilDate of
        Some err \<Rightarrow> (ToolResultError (Error err), [])
      | None \<Rightarrow>
     (let query = Some \<lparr>SinceDate = sinceDate, Type = ''''\<rparr>;
          (fetched, trace) =
            (case string_arg args ''account_id'' of
               Some accountID \<Rightarrow>
                 if accountID \<noteq> '''' then ListAccountTransactions rt client budgetID accountID query
                 else ListTransactions rt client budgetID query
             | None \<Rightarrow> ListTransactions rt client budgetID query)
      in case fetched of
           Inl err \<Rightarrow> (ToolResultError (''Failed to fetch transactions: '' @ Error err), trace)
         | Inr transactions \<Rightarrow>
             (let filteredTxs = until_filter untilDate transactions;
                  summaries = aggregateByCategory filteredTxs;
                  categories = range_values summaries keys;
                  totalOutflow = foldl f64_add 0 (map cs_TotalOutflow categories);
                  totalInflow = foldl f64_add 0 (map cs_TotalInflow categories);
                  categories = sort_Slice (\<lambda>a b. cs_TotalOutflow b < cs_TotalOutflow a) categories
              in (ToolResultText \<lparr>cr_categories = categories, cr_total_outflow = totalOutflow,
                                   cr_total_inflow = totalInflow, cr_since = sinceDate,
                                   cr_until = untilDate\<rparr>, trace))))))))"

text \<open>The loop of the month tool that lays the summaries out in the order of \<open>months\<close>;
  reading a month that is not in the map is the dereference of a nil pointer, \<open>None\<close>.\<close>

fun month_rows ::
  "(string \<rightharpoonup> monthSummary) \<Rightarrow> string list \<Rightarrow> monthSummary list \<times> float64 \<times> float64
    \<Rightarrow> (monthSummary list \<times> float64 \<times> float64) option" where
  "month_rows summaries [] acc = Some acc"
| "month_rows summaries (m # ms) (monthData, totalOutflow, totalInflow) =
     (case summaries m of
        None \<Rightarrow> None
      | Some summary \<Rightarrow>
          month_rows summaries ms
            (monthData @ [summary], f64_add totalOutflow (ms_TotalOutflow summary),
             f64_add totalInflow (ms_TotalInflow summary)))"

record payee_result =
  pr_payees :: "payeeSummary list"
  pr_since :: string
  pr_until :: string

definition payee_topN :: "(float64 \<Rightarrow> int64) \<Rightarrow> (string \<rightharpoonup> arg_value) \<Rightarrow> int64" where
  \<comment> \<open>the \<open>topN\<close> of the payee tool, a 64-bit \<open>int\<close>\<close>
  "payee_topN int_overflow args =
     (case float_arg args ''top_n'' of
        Some topNFloat \<Rightarrow>
          (let topN = int_of_f64 int_overflow topNFloat in if sint topN < 1 then 20 else topN)
      | None \<Rightarrow> 20)"

definition NewGetPayeeSummaryTool_handler ::
  "'b runtime \<Rightarrow> Client \<Rightarrow> (float64 \<Rightarrow> int64)
    \<Rightarrow> ((payeeSummary \<Rightarrow> payeeSummary \<Rightarrow> bool) \<Rightarrow> payeeSummary list \<Rightarrow> payeeSummary list)
    \<Rightarrow> string list \<Rightarrow> (string \<rightharpoonup> arg_value) option \<Rightarrow> payee_result CallToolResult \<times> effect list" where
  "NewGetPayeeSummaryTool_handler rt client int_overflow sort_Slice keys arguments =
     (case arguments of
        None \<Rightarrow> (ToolResultError ''Invalid arguments'', [])
      | Some args \<Rightarrow>
     (case string_arg args ''budget_id'' of
        None \<Rightarrow> (ToolResultError ''budget_id is required'', [])
      | Some budgetID \<Rightarrow>
     if budgetID = '''' then (ToolResultError ''budget_id is required'', []) else
     (case string_arg args ''since_date'' of
        None \<Rightarrow> (ToolResultError ''since_date is required (YYYY-MM-DD format)'', [])
      | Some sinceDate \<Rightarrow>
     if sinceDate = '''' then (ToolResultError ''since_date is required (YYYY-MM-DD format)'', []) else
     (case string_arg args ''until_date'' of
        None \<Rightarrow> (ToolResultError ''until_date is required (YYYY-MM-DD format)'', [])
      | Some untilDate \<Rightarrow>
     if untilDate = '''' then (ToolResultError ''until_date is required (YYYY-MM-DD format)'', []) else
     (case validateDateRange sinceDate untilDate of
        Some err \<Rightarrow> (ToolResultError (Error err), [])
      | None \<Rightarrow>
     (let topN = payee_topN int_overflow args;
          query = Some \<lparr>SinceDate = sinceDate, Type = ''''\<rparr>;
          (fetched, trace) = ListTransactions rt client budgetID query
      in case fetched of
           Inl err \<Rightarrow> (ToolResultError (''Failed to fetch transactions: '' @ Error err), trace)
         | Inr transactions \<Rightarrow>
             (let filteredTxs = until_filter untilDate transactions;
                  summaries = aggregateByPayee filteredTxs;
                  payees = range_values summaries keys;
                  payees = sort_Slice (\<lambda>a b. ps_TotalOutflow b < ps_TotalOutflow a) payees;
                  payees = (if sint topN < int (length payees) then take (nat (sint topN)) payees
                            else payees)
              in (ToolResultText \<lparr>pr_payees = payees, pr_since = sinceDate, pr_until = untilDate\<rparr>,
                  trace))))))))"

record balances_result =
  br_accounts :: "accountBalance list"
  br_total_on_budget :: float64
  br_total_off_budget :: float64
  br_net_worth :: float64

definition balance_step ::
  "accountBalance list \<times> float64 \<times> float64 \<Rightarrow> Account \<Rightarrow> accountBalance list \<times> float64 \<times> float64" where
  "balance_step acc account =
     (case acc of (accountBalances, totalOnBudget, totalOffBudget) \<Rightarrow>
        if acct_Deleted account then (accountBalances, totalOnBudget, totalOffBudget)
        else
          (let balance = \<lparr>ab_AccountID = acct_ID account, ab_AccountName = acct_Name account,
                            ab_AccountType = acct_Type account, ab_OnBudget = acct_OnBudget account,
                            ab_Closed = acct_Closed account,
                            ab_ClearedBalance = MilliunitsToFloat (acct_ClearedBalance account),
                            ab_UnclearedBalance = MilliunitsToFloat (acct_UnclearedBalance account),
                            ab_CurrentBalance = MilliunitsToFloat (acct_Balance account)\<rparr>;
               accountBalances = accountBalances @ [balance]
           in if \<not> acct_Closed account
              then (if acct_OnBudget account
                    then (accountBalances, f64_add totalOnBudget (ab_CurrentBalance balance), totalOffBudget)
                    else (accountBalances, totalOnBudget, f64_add totalOffBudget (ab_CurrentBalance balance)))
              else (accountBalances, totalOnBudget, totalOffBudget)))"

definition NewGetAccountBalancesTool_handler ::
  "'b runtime \<Rightarrow> Client \<Rightarrow> (string \<rightharpoonup> arg_value) option \<Rightarrow> balances_result CallToolResult \<times> effect list" where
  "NewGetAccountBalancesTool_handler rt client arguments =
     (case arguments of
        None \<Rightarrow> (ToolResultError ''Invalid arguments'', [])
      | Some args \<Rightarrow>
     (case string_arg args ''budget_id'' of
        None \<Rightarrow> (ToolResultError ''budget_id is required'', [])
      | Some budgetID \<Rightarrow>
     if budgetID = '''' then (ToolResultError ''budget_id is required'', []) else
     (case ListAccounts rt client budgetID of
        (Inl err, trace) \<Rightarrow> (ToolResultError (''Failed to fetch accounts: '' @ Error err), trace)
      | (Inr accounts, trace) \<Rightarrow>
          (case foldl balance_step ([], 0, 0) accounts of
             (accountBalances, totalOnBudget, totalOffBudget) \<Rightarrow>
               (ToolResultText \<lparr>br_accounts = accountBalances, br_total_on_budget = totalOnBudget,
                                 br_total_off_budget = totalOffBudget,
                                 br_net_worth = f64_add totalOnBudget totalOffBudget\<rparr>, trace)))))"

definition example_sub :: "string \<Rightarrow> int64 \<Rightarrow> string \<Rightarrow> string \<Rightarrow> SubTransaction" where
  "example_sub i amount payeeID categoryID =
     \<lparr>sub_ID = i, sub_TransactionID = ''parent'', sub_Amount = amount, sub_Memo = '''',
      sub_PayeeID = payeeID, sub_PayeeName = payeeID, sub_CategoryID = categoryID,
      sub_CategoryName = categoryID, sub_TransferAccountID = '''',
      sub_TransferTransactionID = '''', sub_Deleted = False\<rparr>"

definition example_tx :: "string \<Rightarrow> string \<Rightarrow> int64 \<Rightarrow> string \<Rightarrow> string \<Rightarrow> Transaction" where
  \<comment> \<open>a transaction with the given ID, date, amount, payee and category; the names are
      the IDs, no transfer, not deleted, no splits\<close>
  "example_tx i date amount payeeID categoryID =
     \<lparr>tx_ID = i, tx_Date = date, tx_Amount = amount, tx_Memo = '''', tx_Cleared = ''cleared'',
      tx_Approved = True, tx_FlagColor = '''', tx_FlagName = '''', tx_AccountID = ''acct'',
      tx_AccountName = ''acct'', tx_PayeeID = payeeID, tx_PayeeName = payeeID,
      tx_CategoryID = categoryID, tx_CategoryName = categoryID, tx_TransferAccountID = '''',
      tx_TransferTransactionID = '''', tx_MatchedTransactionID = '''', tx_ImportID = '''',
      tx_ImportPayeeName = '''', tx_ImportPayeeNameOriginal = '''', tx_DebtTransactionType = '''',
      tx_Deleted = False, tx_Subtransactions = []\<rparr>"

section \<open>Vocabulary of the balance claim\<close>

definition display_balance :: "Account \<Rightarrow> accountBalance" where
  \<comment> \<open>the row listed for an account: its three balances divided by 1000\<close>
  "display_balance account =
     \<lparr>ab_AccountID = acct_ID account, ab_AccountName = acct_Name account,
      ab_AccountType = acct_Type account, ab_OnBudget = acct_OnBudget account,
      ab_Closed = acct_Closed account,
      ab_ClearedBalance = MilliunitsToFloat (acct_ClearedBalance account),
      ab_UnclearedBalance = MilliunitsToFloat (acct_UnclearedBalance account),
      ab_CurrentBalance = MilliunitsToFloat (acct_Balance account)\<rparr>"

definition running_total :: "float64 \<Rightarrow> (Account \<Rightarrow> bool) \<Rightarrow> Account list \<Rightarrow> float64" where
  \<comment> \<open>the displayed balances of the accounts that count, added one by one in list order\<close>
  "running_total start counts accounts =
     foldl f64_add start (map (\<lambda>a. MilliunitsToFloat (acct_Balance a)) (filter counts accounts))"

definition example_ledger :: "Transaction list \<Rightarrow> unit runtime" where
  \<comment> \<open>every request is answered at once with status 200 and these transactions\<close>
  "example_ledger transactions =
     (example_runtime [Response 200 ''{}''] example_decodeErr)
       \<lparr>unmarshal_TransactionsResponse :=
          (\<lambda>b. Inr \<lparr>tr_Transactions = transactions, tr_ServerKnowledge = 0\<rparr>)\<rparr>"

text \<open>A sorting function for the examples: insertion sort by the comparison \<open>lt\<close>.\<close>

fun insert_by :: "('a \<Rightarrow> 'a \<Rightarrow> bool) \<Rightarrow> 'a \<Rightarrow> 'a list \<Rightarrow> 'a list" where
  "insert_by lt x [] = [x]"
| "insert_by lt x (y # ys) = (if lt x y then x # y # ys else y # insert_by lt x ys)"

definition example_sort :: "('a \<Rightarrow> 'a \<Rightarrow> bool) \<Rightarrow> 'a list \<Rightarrow> 'a list" where
  "example_sort lt xs = foldr (insert_by lt) xs []"

definition amd64_overflow :: "float64 \<Rightarrow> int64" where
  \<comment> \<open>what the conversion instruction of amd64 gives for a value that does not fit: the
      least \<open>int64\<close>\<close>
  "amd64_overflow x = word_of_int (- (2 ^ 63))"

definition example_args :: "string \<Rightarrow> string \<Rightarrow> (string \<rightharpoonup> arg_value)" where
  "example_args since until =
     [''budget_id'' \<mapsto> StringArg ''b'', ''since_date'' \<mapsto> StringArg since,
      ''until_date'' \<mapsto> StringArg until]"

definition result_payees :: "payee_result CallToolResult \<Rightarrow> payeeSummary list" where
  "result_payees r = (case r of ToolResultText t \<Rightarrow> pr_payees t | ToolResultError e \<Rightarrow> [])"

definition payee_named :: "(string \<rightharpoonup> payeeSummary) \<Rightarrow> bool" where
  "payee_named m \<longleftrightarrow>
     (\<forall>k s. m k = Some s \<longrightarrow> ps_PayeeID s = k \<and> (k = ''no-payee'' \<longrightarrow> ps_PayeeName s = ''No Payee''))"

section \<open>Properties of the number model\<close>

lemma pow2_pos: "0 < pow2 e"
  by (simp add: pow2_def)

lemma round_half_even_of_int: "round_half_even (of_int n) = n"
  by (simp add: round_half_even_def)

lemma pow2_nonpos_inverse: "e \<le> 0 \<Longrightarrow> 1 / pow2 e = 2 ^ nat (- e)"
  by (cases "e = 0") (simp_all add: pow2_def)

lemma f64_round_int_small:
  assumes "n \<noteq> 0" and "bitlen \<bar>n\<bar> \<le> 53"
  shows "f64_round (of_int n) = of_int n"
proof -
  have n1: "(1::rat) \<le> of_int \<bar>n\<bar>" using assms(1) by simp
  have "ilog2 (of_int \<bar>n\<bar>) = bitlen \<bar>n\<bar> - 1"
    using n1 by (simp only: ilog2_def if_True floor_of_int)
  then have il: "ilog2 \<bar>of_int n :: rat\<bar> = bitlen \<bar>n\<bar> - 1"
    by simp
  define e where "e = bitlen \<bar>n\<bar> - 1 - 52"
  have e0: "e \<le> 0" using assms(2) by (simp add: e_def)
  have "(of_int n :: rat) / pow2 e = of_int n * (1 / pow2 e)" by simp
  also have "\<dots> = of_int (n * 2 ^ nat (- e))"
    by (simp add: pow2_nonpos_inverse [OF e0])
  finally have q: "(of_int n :: rat) / pow2 e = of_int (n * 2 ^ nat (- e))" .
  have "f64_round (of_int n) = of_int (round_half_even (of_int n / pow2 e)) * pow2 e"
    using assms(1) il by (simp add: f64_round_def e_def Let_def)
  also have "\<dots> = of_int (n * 2 ^ nat (- e)) * pow2 e"
    by (simp only: q round_half_even_of_int)
  also have "\<dots> = (of_int n / pow2 e) * pow2 e"
    by (simp only: q)
  also have "\<dots> = of_int n"
    using pow2_pos [of e] by simp
  finally show ?thesis .
qed

lemma bitlen_le_53: "0 < n \<Longrightarrow> n < 2 ^ 53 \<Longrightarrow> bitlen n \<le> 53"
proof -
  assume "0 < n" and "n < 2 ^ 53"
  then have "bitlen n \<le> int (53::nat)"
    by (subst bitlen_le_iff_power) simp_all
  then show ?thesis by simp
qed

lemma f64_round_int_exact:
  assumes "\<bar>n\<bar> < 2 ^ 53"
  shows "f64_round (of_int n) = of_int n"
proof (cases "n = 0")
  case True
  then show ?thesis by (simp add: f64_round_def)
next
  case False
  then have "0 < \<bar>n\<bar>" by simp
  then have "bitlen \<bar>n\<bar> \<le> 53"
    using assms by (rule bitlen_le_53)
  with False show ?thesis by (rule f64_round_int_small)
qed

lemma sint_word_of_int_64:
  assumes "- (2 ^ 63) \<le> k" and "k < 2 ^ 63"
  shows "sint (word_of_int k :: int64) = k"
  using assms by (simp add: sint_sbintrunc' signed_take_bit_int_eq_self)

lemma int64_of_f64_of_int:
  assumes "- (2 ^ 63) \<le> k" and "k < 2 ^ 63"
  shows "int64_of_f64 (of_int k) = Some (word_of_int k)"
  using assms by (simp add: int64_of_f64_def trunc_toward_zero_def Let_def)

section \<open>The retry loop\<close>

lemma marshalled_Some:
  "marshalled rt body = Some bodyReader \<Longrightarrow>
     (case body of None \<Rightarrow> Inr None
      | Some b \<Rightarrow> (case json_Marshal rt b of Inl err \<Rightarrow> Inl err | Inr jsonBody \<Rightarrow> Inr (Some jsonBody)))
     = Inr bodyReader"
  by (auto simp add: marshalled_def split: option.splits sum.splits)

lemma backoff_duration: "push_bit n (1::int) * Second = 2 ^ n * 1000000000"
  by (simp add: Second_def push_bit_of_1)

lemma attempt_reaches_Do:
  assumes "marshalled rt body = Some bodyReader"
    and "http_NewRequest rt method (baseURL @ path) = None"
    and "req = the_request c method path bodyReader (body \<noteq> None)"
  shows "doRequest_attempt rt c method path body result attempt =
     (case http_Do rt req attempt of
        DoFails err \<Rightarrow> (Continue (wrapf ''request failed: '' err), attempt_effects req attempt)
      | ReadFails status err \<Rightarrow>
          (Continue (wrapf ''failed to read response: '' err), attempt_effects req attempt)
      | Response status respBody \<Rightarrow>
          if status = 429
          then (Continue (Errorf ''rate limit exceeded'' None), attempt_effects req attempt)
          else if 400 \<le> status
          then (Return (Inl (Errorf
                  (case unmarshal_APIErrorResponse rt respBody of
                     Inr apiErr \<Rightarrow>
                       if apierr_Detail apiErr \<noteq> ''''
                       then ''YNAB API error ('' @ fmt_d status @ ''): '' @ apierr_Detail apiErr
                       else ''YNAB API error: status '' @ fmt_d status
                   | Inl _ \<Rightarrow> ''YNAB API error: status '' @ fmt_d status) None)),
                attempt_effects req attempt)
          else (case result of
                  None \<Rightarrow> (Return (Inr None), attempt_effects req attempt)
                | Some unmarshal \<Rightarrow>
                    (case unmarshal respBody of
                       Inl err \<Rightarrow> (Return (Inl (wrapf ''failed to parse response: '' err)),
                                    attempt_effects req attempt)
                     | Inr r \<Rightarrow> (Return (Inr (Some r)), attempt_effects req attempt))))"
proof -
  have unfold: "doRequest_attempt rt c method path body result attempt =
     (case http_Do rt req attempt of
        DoFails err \<Rightarrow> (Continue (wrapf ''request failed: '' err), attempt_effects req attempt)
      | ReadFails status err \<Rightarrow>
          (Continue (wrapf ''failed to read response: '' err), attempt_effects req attempt)
      | Response status respBody \<Rightarrow>
          if status = 429
          then (Continue (Errorf ''rate limit exceeded'' None), attempt_effects req attempt)
          else if 400 \<le> status
          then (case unmarshal_APIErrorResponse rt respBody of
                  Inr apiErr \<Rightarrow>
                    if apierr_Detail apiErr \<noteq> ''''
                    then (Return (Inl (Errorf (''YNAB API error ('' @ fmt_d status @ ''): ''
                                                @ apierr_Detail apiErr) None)), attempt_effects req attempt)
                    else (Return (Inl (Errorf (''YNAB API error: status '' @ fmt_d status) None)),
                          attempt_effects req attempt)
                | Inl _ \<Rightarrow>
                    (Return (Inl (Errorf (''YNAB API error: status '' @ fmt_d status) None)),
                     attempt_effects req attempt))
          else (case result of
                  None \<Rightarrow> (Return (Inr None), attempt_effects req attempt)
                | Some unmarshal \<Rightarrow>
                    (case unmarshal respBody of
                       Inl err \<Rightarrow> (Return (Inl (wrapf ''failed to parse response: '' err)),
                                    attempt_effects req attempt)
                     | Inr r \<Rightarrow> (Return (Inr (Some r)), attempt_effects req attempt))))"
    unfolding doRequest_attempt_def marshalled_Some [OF assms(1)] Let_def sum.case assms(2)
      option.case assms(3) [symmetric] attempt_effects_def backoff_duration StatusTooManyRequests_def
    by (rule refl)
  show ?thesis
    unfolding unfold
    by (simp split: do_outcome.split sum.split)
qed

lemma attempt_transient:
  assumes "marshalled rt body = Some bodyReader"
    and "http_NewRequest rt method (baseURL @ path) = None"
    and "req = the_request c method path bodyReader (body \<noteq> None)"
    and "transient (http_Do rt req attempt) = Some err"
  shows "doRequest_attempt rt c method path body result attempt = (Continue err, attempt_effects req attempt)"
  using assms(4) unfolding attempt_reaches_Do [OF assms(1-3)] transient_def
  by (auto split: do_outcome.splits if_splits)

lemma attempt_final:
  assumes "marshalled rt body = Some bodyReader"
    and "http_NewRequest rt method (baseURL @ path) = None"
    and "req = the_request c method path bodyReader (body \<noteq> None)"
    and "transient (http_Do rt req attempt) = None"
  shows "\<exists>r. doRequest_attempt rt c method path body result attempt = (Return r, attempt_effects req attempt)"
  using assms(4) unfolding attempt_reaches_Do [OF assms(1-3)] transient_def
  by (auto split: do_outcome.splits if_splits option.splits sum.splits)

lemma loop_transient_prefix:
  assumes "marshalled rt body = Some bodyReader"
    and "http_NewRequest rt method (baseURL @ path) = None"
    and "req = the_request c method path bodyReader (body \<noteq> None)"
    and "attempt + d \<le> maxRetries"
    and "\<forall>i. attempt \<le> i \<and> i < attempt + d \<longrightarrow> transient (http_Do rt req i) \<noteq> None"
  shows "doRequest_loop rt c method path body result attempt lastErr trace =
         doRequest_loop rt c method path body result (attempt + d)
           (if d = 0 then lastErr else transient (http_Do rt req (attempt + d - 1)))
           (trace @ concat (map (attempt_effects req) [attempt..<attempt + d]))"
  using assms(4,5)
proof (induction d arbitrary: attempt lastErr trace)
  case 0
  then show ?case by simp
next
  case (Suc d)
  have "transient (http_Do rt req attempt) \<noteq> None"
    using Suc.prems(2) [rule_format, of attempt] by simp
  then obtain err where err: "transient (http_Do rt req attempt) = Some err"
    by blast
  have lt: "attempt < maxRetries" using Suc.prems(1) by simp
  have "doRequest_loop rt c method path body result attempt lastErr trace =
      doRequest_loop rt c method path body result (Suc attempt) (Some err)
        (trace @ attempt_effects req attempt)"
    by (subst doRequest_loop.simps) (simp add: lt attempt_transient [OF assms(1-3) err])
  also have "\<dots> =
      doRequest_loop rt c method path body result (Suc attempt + d)
        (if d = 0 then Some err else transient (http_Do rt req (Suc attempt + d - 1)))
        ((trace @ attempt_effects req attempt) @ concat (map (attempt_effects req) [Suc attempt..<Suc attempt + d]))"
    by (rule Suc.IH) (use Suc.prems in simp_all)
  also have "(if d = 0 then Some err else transient (http_Do rt req (Suc attempt + d - 1))) =
      (if Suc d = 0 then lastErr else transient (http_Do rt req (attempt + Suc d - 1)))"
    using err by simp
  also have "(trace @ attempt_effects req attempt) @ concat (map (attempt_effects req) [Suc attempt..<Suc attempt + d])
      = trace @ concat (map (attempt_effects req) [attempt..<attempt + Suc d])"
    by (subst (2) upt_rec) simp
  also have "Suc attempt + d = attempt + Suc d"
    by simp
  finally show ?case .
qed

lemma loop_exhausted:
  "doRequest_loop rt c method path body result maxRetries lastErr trace = (Inl (exhausted lastErr), trace)"
  by (subst doRequest_loop.simps) simp

lemma doRequest_after_transients:
  assumes "marshalled rt body = Some bodyReader"
    and "http_NewRequest rt method (baseURL @ path) = None"
    and "req = the_request c method path bodyReader (body \<noteq> None)"
    and "n < maxRetries"
    and "\<forall>i<n. transient (http_Do rt req i) \<noteq> None"
    and "doRequest_attempt rt c method path body result n = (Return r, attempt_effects req n)"
  shows "doRequest rt c method path body result = (r, attempts_trace req (Suc n))"
proof -
  have "doRequest rt c method path body result =
      doRequest_loop rt c method path body result (0 + n)
        (if n = 0 then None else transient (http_Do rt req (0 + n - 1)))
        ([] @ concat (map (attempt_effects req) [0..<0 + n]))"
    unfolding doRequest_def
    by (rule loop_transient_prefix [OF assms(1-3)]) (use assms(4,5) in simp_all)
  also have "\<dots> = (r, concat (map (attempt_effects req) [0..<n]) @ attempt_effects req n)"
    by (subst doRequest_loop.simps) (simp add: assms(4,6))
  finally show ?thesis
    by (simp add: attempts_trace_def)
qed

lemma doRequest_all_transient:
  assumes "marshalled rt body = Some bodyReader"
    and "http_NewRequest rt method (baseURL @ path) = None"
    and "req = the_request c method path bodyReader (body \<noteq> None)"
    and "\<forall>i<maxRetries. transient (http_Do rt req i) \<noteq> None"
  shows "doRequest rt c method path body result =
     (Inl (exhausted (transient (http_Do rt req (maxRetries - 1)))), attempts_trace req maxRetries)"
proof -
  have "doRequest rt c method path body result =
      doRequest_loop rt c method path body result (0 + maxRetries)
        (if maxRetries = 0 then None else transient (http_Do rt req (0 + maxRetries - 1)))
        ([] @ concat (map (attempt_effects req) [0..<0 + maxRetries]))"
    unfolding doRequest_def
    by (rule loop_transient_prefix [OF assms(1-3)]) (use assms(4) in simp_all)
  also have "\<dots> = (Inl (exhausted (transient (http_Do rt req (maxRetries - 1)))),
      concat (map (attempt_effects req) [0..<maxRetries]))"
    unfolding add_0 append_Nil loop_exhausted by (simp add: maxRetries_def)
  finally show ?thesis
    by (simp add: attempts_trace_def)
qed

lemma fmt_d_3: "fmt_d (int maxRetries) = ''3''"
  by code_simp

lemma exhausted_Some:
  "exhausted (Some err) = Errorf (''request failed after 3 attempts: '' @ Error err) (Some err)"
  by (simp add: exhausted_def wrapf_def fmt_d_3)

lemma attempts_trace_3:
  "attempts_trace req 3 = [HttpDo req, Sleep 1000000000, HttpDo req, Sleep 2000000000, HttpDo req]"
  by (simp add: attempts_trace_def attempt_effects_def numeral_3_eq_3)

section \<open>C2: transient failures are retried with exponential backoff\<close>

text \<open>
  C2. Take any call whose request can be built, and let the first \<open>n \<le> 3\<close> attempts end
  in a transient failure (an error of \<open>Do\<close>, an error reading the body, or status 429) and,
  when \<open>n < 3\<close>, the next attempt end otherwise. Then the call makes \<open>min 3 (n + 1)\<close>
  attempts, each retry after a sleep of \<open>2 ^ (attempt - 1)\<close> seconds and nothing else. With
  \<open>n = 3\<close> the error is "request failed after 3 attempts: " followed by the error of the
  third attempt, which it wraps. With \<open>n = 2\<close> and a third attempt that succeeds, the call
  returns the decoded result after the effects request, sleep 1 s, request, sleep 2 s,
  request.
\<close>

theorem doRequest_retries_transient_failures:
  assumes "marshalled rt body = Some bodyReader"
    and "http_NewRequest rt method (baseURL @ path) = None"
    and "req = the_request c method path bodyReader (body \<noteq> None)"
    and "n \<le> 3"
    and "\<forall>i<n. transient (http_Do rt req i) \<noteq> None"
    and "n < 3 \<longrightarrow> transient (http_Do rt req n) = None"
  shows "snd (doRequest rt c method path body result) = attempts_trace req (min 3 (Suc n))
       \<and> (n = 3 \<longrightarrow>
            (\<exists>err. transient (http_Do rt req 2) = Some err
               \<and> fst (doRequest rt c method path body result)
                   = Inl (Errorf (''request failed after 3 attempts: '' @ Error err) (Some err))))
       \<and> (\<forall>status respBody unmarshal r.
            n = 2 \<and> http_Do rt req 2 = Response status respBody \<and> status < 400
            \<and> result = Some unmarshal \<and> unmarshal respBody = Inr r
            \<longrightarrow> doRequest rt c method path body result
                = (Inr (Some r), [HttpDo req, Sleep 1000000000, HttpDo req, Sleep 2000000000, HttpDo req]))"
proof (cases "n = 3")
  case True
  have all: "\<forall>i<maxRetries. transient (http_Do rt req i) \<noteq> None"
    using assms(5) True by (simp add: maxRetries_def)
  have run: "doRequest rt c method path body result =
      (Inl (exhausted (transient (http_Do rt req 2))), attempts_trace req 3)"
    using doRequest_all_transient [OF assms(1-3) all, of result] by (simp add: maxRetries_def)
  have "transient (http_Do rt req 2) \<noteq> None"
    using assms(5) True by simp
  then obtain err where err: "transient (http_Do rt req 2) = Some err"
    by blast
  show ?thesis
    using True by (simp add: run err exhausted_Some)
next
  case False
  then have n: "n < maxRetries" using assms(4) by (simp add: maxRetries_def)
  have fin: "transient (http_Do rt req n) = None"
    using assms(6) n by (simp add: maxRetries_def)
  obtain r0 where r0: "doRequest_attempt rt c method path body result n = (Return r0, attempt_effects req n)"
    using attempt_final [OF assms(1-3) fin] by blast
  have run: "doRequest rt c method path body result = (r0, attempts_trace req (Suc n))"
    by (rule doRequest_after_transients [OF assms(1-3) n assms(5) r0])
  have "min 3 (Suc n) = Suc n"
    using n by (simp add: maxRetries_def)
  then have tr: "snd (doRequest rt c method path body result) = attempts_trace req (min 3 (Suc n))"
    by (simp add: run)
  have ok: "doRequest rt c method path body result
      = (Inr (Some r), [HttpDo req, Sleep 1000000000, HttpDo req, Sleep 2000000000, HttpDo req])"
    if "n = 2" and "http_Do rt req 2 = Response status respBody" and "status < 400"
      and "result = Some unmarshal" and "unmarshal respBody = Inr r"
    for status respBody unmarshal r
  proof -
    have "status \<noteq> 429" using that(3) by simp
    then have "doRequest_attempt rt c method path body result 2 = (Return (Inr (Some r)), attempt_effects req 2)"
      using that by (simp add: attempt_reaches_Do [OF assms(1-3)])
    then have "r0 = Inr (Some r)"
      using r0 that(1) by simp
    then show ?thesis
      using run that(1) by (simp add: attempts_trace_3)
  qed
  show ?thesis
  proof (intro conjI allI impI)
    show "snd (doRequest rt c method path body result) = attempts_trace req (min 3 (Suc n))"
      by (rule tr)
  next
    assume "n = 3"
    with False show "\<exists>err. transient (http_Do rt req 2) = Some err
        \<and> fst (doRequest rt c method path body result)
            = Inl (Errorf (''request failed after 3 attempts: '' @ Error err) (Some err))"
      by simp
  next
    fix status respBody unmarshal r
    assume "n = 2 \<and> http_Do rt req 2 = Response status respBody \<and> status < 400
        \<and> result = Some unmarshal \<and> unmarshal respBody = Inr r"
    then show "doRequest rt c method path body result
        = (Inr (Some r), [HttpDo req, Sleep 1000000000, HttpDo req, Sleep 2000000000, HttpDo req])"
      by (elim conjE) (rule ok)
  qed
qed

theorem doRequest_retries_transient_failures_witness:
  "doRequest (example_runtime [DoFails (Errorf ''timeout'' None), Response 429 '''', Response 200 ''ok''] example_decodeErr)
      example_client ''GET'' ''/budgets'' None (Some (\<lambda>b. Inr b))
    = (Inr (Some ''ok''),
       [HttpDo (the_request example_client ''GET'' ''/budgets'' None False), Sleep 1000000000,
        HttpDo (the_request example_client ''GET'' ''/budgets'' None False), Sleep 2000000000,
        HttpDo (the_request example_client ''GET'' ''/budgets'' None False)])
   \<and> fst (doRequest (example_runtime [DoFails (Errorf ''timeout'' None), Response 429 '''', Response 429 ''''] example_decodeErr)
      example_client ''GET'' ''/budgets'' None (Some (\<lambda>b. Inr b)))
    = (Inl (Errorf ''request failed after 3 attempts: rate limit exceeded''
              (Some (Errorf ''rate limit exceeded'' None))) :: error + string option)"
proof -
  let ?req = "the_request example_client ''GET'' ''/budgets'' None False"
  let ?rt2 = "example_runtime [DoFails (Errorf ''timeout'' None), Response 429 '''', Response 200 ''ok''] example_decodeErr"
  let ?rt3 = "example_runtime [DoFails (Errorf ''timeout'' None), Response 429 '''', Response 429 ''''] example_decodeErr"
  have m2: "marshalled ?rt2 None = Some None" and m3: "marshalled ?rt3 None = Some None"
    by (simp_all add: marshalled_def)
  have nr2: "http_NewRequest ?rt2 ''GET'' (baseURL @ ''/budgets'') = None"
    and nr3: "http_NewRequest ?rt3 ''GET'' (baseURL @ ''/budgets'') = None"
    by (simp_all add: example_runtime_def)
  have rq: "?req = the_request example_client ''GET'' ''/budgets'' None ((None :: unit option) \<noteq> None)"
    by simp
  have t2: "\<forall>i<2. transient (http_Do ?rt2 ?req i) \<noteq> None"
    by (simp add: example_runtime_def transient_def less_Suc_eq numeral_2_eq_2)
  have f2: "(2::nat) < 3 \<longrightarrow> transient (http_Do ?rt2 ?req 2) = None"
    by (simp add: example_runtime_def transient_def)
  have t3: "\<forall>i<3. transient (http_Do ?rt3 ?req i) \<noteq> None"
    by (simp add: example_runtime_def transient_def less_Suc_eq numeral_3_eq_3)
  have f3: "(3::nat) < 3 \<longrightarrow> transient (http_Do ?rt3 ?req 3) = None"
    by simp
  have d2: "http_Do ?rt2 ?req 2 = Response 200 ''ok''"
    by (simp add: example_runtime_def)
  have d3: "transient (http_Do ?rt3 ?req 2) = Some (Errorf ''rate limit exceeded'' None)"
    by (simp add: example_runtime_def transient_def)
  note a = doRequest_retries_transient_failures [OF m2 nr2 rq _ t2 f2, of "Some (\<lambda>b. Inr b)"]
  note b = doRequest_retries_transient_failures [OF m3 nr3 rq _ t3 f3, of "Some (\<lambda>b. Inr b)"]
  have "doRequest ?rt2 example_client ''GET'' ''/budgets'' None (Some (\<lambda>b. Inr b))
      = (Inr (Some ''ok''), [HttpDo ?req, Sleep 1000000000, HttpDo ?req, Sleep 2000000000, HttpDo ?req])"
    using a d2 by simp
  moreover have "fst (doRequest ?rt3 example_client ''GET'' ''/budgets'' None (Some (\<lambda>b. Inr b)))
      = (Inl (Errorf ''request failed after 3 attempts: rate limit exceeded''
              (Some (Errorf ''rate limit exceeded'' None))) :: error + string option)"
    using b d3 by simp
  ultimately show ?thesis by simp
qed

section \<open>C3: other HTTP errors end the call\<close>



section \<open>C6: round trip of the unit conversions\<close>

text \<open>
  C6. The round trip \<open>MilliunitsToFloat (FloatToMilliunits x) = x\<close> does not hold for
  every amount with at most three decimal digits. The amount 2.01 has two; its
  \<open>float64\<close> product with 1000 lies just below 2010, \<open>FloatToMilliunits\<close> cuts the
  fraction off and returns 2009, and \<open>MilliunitsToFloat 2009\<close> is 2.009, not 2.01. The
  conversion is a truncation toward zero, not a floor: for -2.01 it returns -2009, where
  the floor of the product is -2010.
\<close>

theorem FloatToMilliunits_loses_a_milliunit:
  "FloatToMilliunits (decimal3 2010) = Some 2009
   \<and> MilliunitsToFloat 2009 \<noteq> decimal3 2010
   \<and> FloatToMilliunits (decimal3 (- 2010)) = Some (- 2009)
   \<and> \<lfloor>f64_mul (decimal3 (- 2010)) 1000\<rfloor> = - 2010"
  by code_simp

text \<open>
  Where the round trip does hold: for every amount \<open>k / 1000\<close> with three decimal digits
  whose \<open>float64\<close> product with 1000 is exactly \<open>k\<close>, the conversion to milliunits gives
  \<open>k\<close> and the conversion back gives the amount again, as for 45.67 and 45670.
\<close>

lemma round_trip_when_product_exact:
  assumes "\<bar>k\<bar> < 2 ^ 53" and "f64_mul (decimal3 k) 1000 = of_int k"
  shows "FloatToMilliunits (decimal3 k) = Some (word_of_int k)
       \<and> MilliunitsToFloat (word_of_int k) = decimal3 k
       \<and> sint (word_of_int k :: int64) = k"
proof -
  have lo: "- (2 ^ 63) \<le> k" and hi: "k < 2 ^ 63"
    using assms(1) by simp_all
  have s: "sint (word_of_int k :: int64) = k"
    using lo hi by (rule sint_word_of_int_64)
  have "FloatToMilliunits (decimal3 k) = int64_of_f64 (of_int k)"
    by (simp add: FloatToMilliunits_def assms(2))
  then have a: "FloatToMilliunits (decimal3 k) = Some (word_of_int k)"
    using lo hi by (simp add: int64_of_f64_of_int)
  have "f64_of_int64 (word_of_int k) = of_int k"
    using assms(1) by (simp add: f64_of_int64_def s f64_round_int_exact)
  then have b: "MilliunitsToFloat (word_of_int k) = decimal3 k"
    by (simp add: MilliunitsToFloat_def f64_div_def decimal3_def)
  from a b s show ?thesis by simp
qed

lemma round_trip_45_67:
  "FloatToMilliunits (decimal3 45670) = Some 45670
   \<and> MilliunitsToFloat 45670 = decimal3 45670"
proof -
  have h1: "\<bar>45670 :: int\<bar> < 2 ^ 53" by simp
  have h2: "f64_mul (decimal3 45670) 1000 = of_int 45670" by code_simp
  show ?thesis
    using round_trip_when_product_exact [OF h1 h2] by simp
qed

section \<open>Errors of the client and of the lookups\<close>

lemma attempt_error_transport:
  assumes "doRequest_attempt rt c method path body result attempt = (Return (Inl e), es)"
  shows "transport_message (Error e)"
  using assms unfolding doRequest_attempt_def Let_def
  by (auto simp add: transport_message_def wrapf_def
      split: sum.splits option.splits do_outcome.splits if_splits)

lemma exhausted_transport: "transport_message (Error (exhausted lastErr))"
  by (cases lastErr) (simp_all add: exhausted_def transport_message_def wrapf_def)

lemma loop_error_transport:
  "doRequest_loop rt c meth path body result attempt lastErr trace = (Inl e, tr)
    \<Longrightarrow> transport_message (Error e)"
proof (induction rt c meth path body result attempt lastErr trace rule: doRequest_loop.induct)
  case (1 rt c meth path body result attempt lastErr trace)
  show ?case
  proof (cases "attempt < maxRetries")
    case False
    then have "e = exhausted lastErr"
      using "1.prems" by (subst (asm) doRequest_loop.simps) simp
    then show ?thesis by (simp add: exhausted_transport)
  next
    case True
    obtain it es where a: "doRequest_attempt rt c meth path body result attempt = (it, es)"
      by (cases "doRequest_attempt rt c meth path body result attempt")
    show ?thesis
    proof (cases it)
      case (Continue err)
      then have "doRequest_loop rt c meth path body result (Suc attempt) (Some err) (trace @ es) = (Inl e, tr)"
        using "1.prems" True a by (subst (asm) doRequest_loop.simps) simp
      then show ?thesis
        using "1.IH" [OF True a [symmetric] Continue] by simp
    next
      case (Return r)
      then have "r = Inl e"
        using "1.prems" True a by (subst (asm) doRequest_loop.simps) simp
      then show ?thesis
        using a Return attempt_error_transport by blast
    qed
  qed
qed

lemma get_error_transport:
  "get rt c path result = (Inl e, tr) \<Longrightarrow> transport_message (Error e)"
  unfolding get_def doRequest_def by (rule loop_error_transport)

lemma ListAccounts_error:
  "ListAccounts rt c budgetID = (Inl e, tr) \<Longrightarrow> transport_message (Error e)"
  unfolding ListAccounts_def Let_def
  by (auto split: prod.splits sum.splits dest: get_error_transport)

lemma ListCategories_error:
  "ListCategories rt c budgetID = (Inl e, tr) \<Longrightarrow> transport_message (Error e)"
  unfolding ListCategories_def Let_def
  by (auto split: prod.splits sum.splits dest: get_error_transport)

lemma ListPayees_error:
  "ListPayees rt c budgetID = (Inl e, tr) \<Longrightarrow> transport_message (Error e)"
  unfolding ListPayees_def Let_def
  by (auto split: prod.splits sum.splits dest: get_error_transport)

lemma not_found_not_transport:
  "\<not> transport_message (''account not found: '' @ k)"
  "\<not> transport_message (''category not found: '' @ k)"
  "\<not> transport_message (''payee not found: '' @ k)"
  by (simp_all add: transport_message_def)

lemma find_first_match:
  assumes "x \<in> set xs" and "f x = k"
  shows "\<exists>y. find (\<lambda>z. f z = k) xs = Some y \<and> y \<in> set xs \<and> f y = k \<and> (distinct (map f xs) \<longrightarrow> y = x)"
  using assms
proof (induction xs)
  case Nil
  then show ?case by simp
next
  case (Cons z zs)
  show ?case
  proof (cases "f z = k")
    case True
    then show ?thesis using Cons.prems by (auto simp add: image_iff)
  next
    case False
    then have "x \<in> set zs" using Cons.prems by auto
    then show ?thesis using Cons.IH Cons.prems(2) False by auto
  qed
qed

lemma find_no_match: "(\<forall>x\<in>set xs. f x \<noteq> k) \<Longrightarrow> find (\<lambda>z. f z = k) xs = None"
  by (induction xs) auto

lemma search_groups_no_match:
  "(\<forall>x\<in>set (concat (map grp_Categories groups)). cat_ID x \<noteq> k) \<Longrightarrow> search_groups groups k = None"
  by (induction groups) (auto simp add: find_no_match)

lemma search_groups_first_match:
  assumes "x \<in> set (concat (map grp_Categories groups))" and "cat_ID x = k"
  shows "\<exists>y. search_groups groups k = Some y \<and> y \<in> set (concat (map grp_Categories groups))
           \<and> cat_ID y = k \<and> (distinct (map cat_ID (concat (map grp_Categories groups))) \<longrightarrow> y = x)"
  using assms
proof (induction groups)
  case Nil
  then show ?case by simp
next
  case (Cons g gs)
  show ?case
  proof (cases "find (\<lambda>z. cat_ID z = k) (grp_Categories g)")
    case (Some y)
    then have y: "y \<in> set (grp_Categories g)" "cat_ID y = k"
      by (auto simp add: find_Some_iff)
    have "y = x" if d: "distinct (map cat_ID (concat (map grp_Categories (g # gs))))"
    proof (cases "x \<in> set (grp_Categories g)")
      case True
      have "distinct (map cat_ID (grp_Categories g))" using d by simp
      then show ?thesis
        using find_first_match [of x "grp_Categories g" cat_ID k, OF True Cons.prems(2)] Some by simp
    next
      case False
      then have "x \<in> set (concat (map grp_Categories gs))" using Cons.prems(1) by auto
      then have "cat_ID x \<in> cat_ID ` set (concat (map grp_Categories gs))" by (rule imageI)
      moreover have "cat_ID y \<in> cat_ID ` set (grp_Categories g)" using y(1) by (rule imageI)
      moreover have "cat_ID ` set (grp_Categories g) \<inter> cat_ID ` set (concat (map grp_Categories gs)) = {}"
        using d by simp
      ultimately show ?thesis using y(2) Cons.prems(2) by auto
    qed
    then show ?thesis using Some y by auto
  next
    case None
    then have "x \<notin> set (grp_Categories g)"
      using Cons.prems(2) by (auto simp add: find_None_iff)
    then have "x \<in> set (concat (map grp_Categories gs))" using Cons.prems(1) by auto
    then obtain y where y: "search_groups gs k = Some y" "y \<in> set (concat (map grp_Categories gs))"
        "cat_ID y = k" "distinct (map cat_ID (concat (map grp_Categories gs))) \<longrightarrow> y = x"
      using Cons.IH Cons.prems(2) by blast
    then show ?thesis using None by auto
  qed
qed


lemma GetAccount_cases:
  "GetAccount rt c b k =
     (case fst (ListAccounts rt c b) of
        Inl err \<Rightarrow> (Inl err, snd (ListAccounts rt c b))
      | Inr accounts \<Rightarrow>
          (case find (\<lambda>account. acct_ID account = k) accounts of
             Some account \<Rightarrow> (Inr account, snd (ListAccounts rt c b))
           | None \<Rightarrow> (Inl (Errorf (''account not found: '' @ k) None), snd (ListAccounts rt c b))))"
  by (cases "ListAccounts rt c b") (simp add: GetAccount_def split: sum.splits option.splits)

lemma GetCategory_cases:
  "GetCategory rt c b k =
     (case fst (ListCategories rt c b) of
        Inl err \<Rightarrow> (Inl err, snd (ListCategories rt c b))
      | Inr groups \<Rightarrow>
          (case search_groups groups k of
             Some category \<Rightarrow> (Inr category, snd (ListCategories rt c b))
           | None \<Rightarrow> (Inl (Errorf (''category not found: '' @ k) None), snd (ListCategories rt c b))))"
  by (cases "ListCategories rt c b") (simp add: GetCategory_def split: sum.splits option.splits)

lemma GetPayee_cases:
  "GetPayee rt c b k =
     (case fst (ListPayees rt c b) of
        Inl err \<Rightarrow> (Inl err, snd (ListPayees rt c b))
      | Inr payees \<Rightarrow>
          (case find (\<lambda>payee. payee_ID payee = k) payees of
             Some payee \<Rightarrow> (Inr payee, snd (ListPayees rt c b))
           | None \<Rightarrow> (Inl (Errorf (''payee not found: '' @ k) None), snd (ListPayees rt c b))))"
  by (cases "ListPayees rt c b") (simp add: GetPayee_def split: sum.splits option.splits)

lemma example_directory_lists:
  "ListAccounts (example_directory accounts groups payees) example_client b
     = (Inr accounts, [HttpDo (the_request example_client ''GET'' (''/budgets/'' @ b @ ''/accounts'') None False)])"
  "ListCategories (example_directory accounts groups payees) example_client b
     = (Inr groups, [HttpDo (the_request example_client ''GET'' (''/budgets/'' @ b @ ''/categories'') None False)])"
  "ListPayees (example_directory accounts groups payees) example_client b
     = (Inr payees, [HttpDo (the_request example_client ''GET'' (''/budgets/'' @ b @ ''/payees'') None False)])"
  by (simp_all add: ListAccounts_def ListCategories_def ListPayees_def get_def doRequest_def
      doRequest_loop.simps [of _ _ _ _ _ _ 0] maxRetries_def doRequest_attempt_def
      example_directory_def example_runtime_def StatusTooManyRequests_def)

section \<open>C8: looking a single entity up\<close>

text \<open>
  C8. \<open>GetAccount\<close>, \<open>GetCategory\<close> and \<open>GetPayee\<close> fetch the list and make no further
  request. When the list arrives and holds no entity with the requested ID, the result is
  the error "account not found: ID" ("category not found: ID", "payee not found: ID").
  When it holds one, the first entity with that ID is returned, whatever its fields say,
  its deletion mark included; with IDs that are distinct in the list this is the very
  entity. When the listing fails, its error is passed on, and the message of such an
  error is never a not-found message.
\<close>

theorem get_single_scans_the_list:
  "(fst (ListAccounts rt c b) = Inr accounts \<longrightarrow>
      snd (GetAccount rt c b k) = snd (ListAccounts rt c b)
      \<and> ((\<forall>a\<in>set accounts. acct_ID a \<noteq> k) \<longrightarrow>
            fst (GetAccount rt c b k) = Inl (Errorf (''account not found: '' @ k) None))
      \<and> (\<forall>a\<in>set accounts. acct_ID a = k \<longrightarrow>
            (\<exists>a'. fst (GetAccount rt c b k) = Inr a' \<and> a' \<in> set accounts \<and> acct_ID a' = k
                  \<and> (distinct (map acct_ID accounts) \<longrightarrow> a' = a))))
   \<and> (fst (ListAccounts rt c b) = Inl ea \<longrightarrow>
        GetAccount rt c b k = (Inl ea, snd (ListAccounts rt c b))
        \<and> Error ea \<noteq> ''account not found: '' @ k')
   \<and> (fst (ListCategories rt c b) = Inr groups \<longrightarrow>
      snd (GetCategory rt c b k) = snd (ListCategories rt c b)
      \<and> ((\<forall>a\<in>set (concat (map grp_Categories groups)). cat_ID a \<noteq> k) \<longrightarrow>
            fst (GetCategory rt c b k) = Inl (Errorf (''category not found: '' @ k) None))
      \<and> (\<forall>a\<in>set (concat (map grp_Categories groups)). cat_ID a = k \<longrightarrow>
            (\<exists>a'. fst (GetCategory rt c b k) = Inr a' \<and> a' \<in> set (concat (map grp_Categories groups))
                  \<and> cat_ID a' = k
                  \<and> (distinct (map cat_ID (concat (map grp_Categories groups))) \<longrightarrow> a' = a))))
   \<and> (fst (ListCategories rt c b) = Inl ec \<longrightarrow>
        GetCategory rt c b k = (Inl ec, snd (ListCategories rt c b))
        \<and> Error ec \<noteq> ''category not found: '' @ k')
   \<and> (fst (ListPayees rt c b) = Inr payees \<longrightarrow>
      snd (GetPayee rt c b k) = snd (ListPayees rt c b)
      \<and> ((\<forall>a\<in>set payees. payee_ID a \<noteq> k) \<longrightarrow>
            fst (GetPayee rt c b k) = Inl (Errorf (''payee not found: '' @ k) None))
      \<and> (\<forall>a\<in>set payees. payee_ID a = k \<longrightarrow>
            (\<exists>a'. fst (GetPayee rt c b k) = Inr a' \<and> a' \<in> set payees \<and> payee_ID a' = k
                  \<and> (distinct (map payee_ID payees) \<longrightarrow> a' = a))))
   \<and> (fst (ListPayees rt c b) = Inl ep \<longrightarrow>
        GetPayee rt c b k = (Inl ep, snd (ListPayees rt c b))
        \<and> Error ep \<noteq> ''payee not found: '' @ k')"
proof (intro conjI impI ballI)
  assume l: "fst (ListAccounts rt c b) = Inr accounts"
  show "snd (GetAccount rt c b k) = snd (ListAccounts rt c b)"
    by (simp add: GetAccount_cases l split: option.splits)
  show "fst (GetAccount rt c b k) = Inl (Errorf (''account not found: '' @ k) None)"
    if "\<forall>a\<in>set accounts. acct_ID a \<noteq> k"
    using find_no_match [OF that] by (simp add: GetAccount_cases l)
  show "\<exists>a'. fst (GetAccount rt c b k) = Inr a' \<and> a' \<in> set accounts \<and> acct_ID a' = k
      \<and> (distinct (map acct_ID accounts) \<longrightarrow> a' = a)"
    if "a \<in> set accounts" and "acct_ID a = k" for a
    using find_first_match [of a accounts acct_ID k, OF that] by (auto simp add: GetAccount_cases l)
next
  assume l: "fst (ListAccounts rt c b) = Inl ea"
  show "GetAccount rt c b k = (Inl ea, snd (ListAccounts rt c b))"
    by (simp add: GetAccount_cases l)
  have "transport_message (Error ea)"
    using l ListAccounts_error [of rt c b ea "snd (ListAccounts rt c b)"]
    by (metis prod.collapse)
  then show "Error ea \<noteq> ''account not found: '' @ k'"
    using not_found_not_transport(1) [of k'] by auto
next
  assume l: "fst (ListCategories rt c b) = Inr groups"
  show "snd (GetCategory rt c b k) = snd (ListCategories rt c b)"
    by (simp add: GetCategory_cases l split: option.splits)
  show "fst (GetCategory rt c b k) = Inl (Errorf (''category not found: '' @ k) None)"
    if "\<forall>a\<in>set (concat (map grp_Categories groups)). cat_ID a \<noteq> k"
    using search_groups_no_match [OF that] by (simp add: GetCategory_cases l)
  show "\<exists>a'. fst (GetCategory rt c b k) = Inr a' \<and> a' \<in> set (concat (map grp_Categories groups))
      \<and> cat_ID a' = k \<and> (distinct (map cat_ID (concat (map grp_Categories groups))) \<longrightarrow> a' = a)"
    if "a \<in> set (concat (map grp_Categories groups))" and "cat_ID a = k" for a
    using search_groups_first_match [OF that] by (auto simp add: GetCategory_cases l)
next
  assume l: "fst (ListCategories rt c b) = Inl ec"
  show "GetCategory rt c b k = (Inl ec, snd (ListCategories rt c b))"
    by (simp add: GetCategory_cases l)
  have "transport_message (Error ec)"
    using l ListCategories_error [of rt c b ec "snd (ListCategories rt c b)"]
    by (metis prod.collapse)
  then show "Error ec \<noteq> ''category not found: '' @ k'"
    using not_found_not_transport(2) [of k'] by auto
next
  assume l: "fst (ListPayees rt c b) = Inr payees"
  show "snd (GetPayee rt c b k) = snd (ListPayees rt c b)"
    by (simp add: GetPayee_cases l split: option.splits)
  show "fst (GetPayee rt c b k) = Inl (Errorf (''payee not found: '' @ k) None)"
    if "\<forall>a\<in>set payees. payee_ID a \<noteq> k"
    using find_no_match [OF that] by (simp add: GetPayee_cases l)
  show "\<exists>a'. fst (GetPayee rt c b k) = Inr a' \<and> a' \<in> set payees \<and> payee_ID a' = k
      \<and> (distinct (map payee_ID payees) \<longrightarrow> a' = a)"
    if "a \<in> set payees" and "payee_ID a = k" for a
    using find_first_match [of a payees payee_ID k, OF that] by (auto simp add: GetPayee_cases l)
next
  assume l: "fst (ListPayees rt c b) = Inl ep"
  show "GetPayee rt c b k = (Inl ep, snd (ListPayees rt c b))"
    by (simp add: GetPayee_cases l)
  have "transport_message (Error ep)"
    using l ListPayees_error [of rt c b ep "snd (ListPayees rt c b)"]
    by (metis prod.collapse)
  then show "Error ep \<noteq> ''payee not found: '' @ k'"
    using not_found_not_transport(3) [of k'] by auto
qed


theorem get_single_scans_the_list_witness:
  "fst (GetAccount (example_directory [example_account ''A'' 100000 True False True]
          [example_group ''g'' [example_category ''C'' True]] [example_payee ''P'' True])
        example_client ''b'' ''A'') = Inr (example_account ''A'' 100000 True False True)
   \<and> fst (GetAccount (example_directory [example_account ''A'' 100000 True False True]
          [example_group ''g'' [example_category ''C'' True]] [example_payee ''P'' True])
        example_client ''b'' ''Z'') = Inl (Errorf ''account not found: Z'' None)
   \<and> fst (GetCategory (example_directory [example_account ''A'' 100000 True False True]
          [example_group ''g'' [example_category ''C'' True]] [example_payee ''P'' True])
        example_client ''b'' ''C'') = Inr (example_category ''C'' True)
   \<and> fst (GetCategory (example_directory [example_account ''A'' 100000 True False True]
          [example_group ''g'' [example_category ''C'' True]] [example_payee ''P'' True])
        example_client ''b'' ''Z'') = Inl (Errorf ''category not found: Z'' None)
   \<and> fst (GetPayee (example_directory [example_account ''A'' 100000 True False True]
          [example_group ''g'' [example_category ''C'' True]] [example_payee ''P'' True])
        example_client ''b'' ''P'') = Inr (example_payee ''P'' True)
   \<and> fst (GetPayee (example_directory [example_account ''A'' 100000 True False True]
          [example_group ''g'' [example_category ''C'' True]] [example_payee ''P'' True])
        example_client ''b'' ''Z'') = Inl (Errorf ''payee not found: Z'' None)"
proof -
  let ?as = "[example_account ''A'' 100000 True False True]"
  let ?gs = "[example_group ''g'' [example_category ''C'' True]]"
  let ?ps = "[example_payee ''P'' True]"
  let ?rt = "example_directory ?as ?gs ?ps"
  have la: "fst (ListAccounts ?rt example_client ''b'') = Inr ?as"
    and lc: "fst (ListCategories ?rt example_client ''b'') = Inr ?gs"
    and lp: "fst (ListPayees ?rt example_client ''b'') = Inr ?ps"
    by (simp_all add: example_directory_lists)
  have ida: "acct_ID (example_account ''A'' 100000 True False True) = ''A''"
    and idc: "cat_ID (example_category ''C'' True) = ''C''"
    and idp: "payee_ID (example_payee ''P'' True) = ''P''"
    and cs: "concat (map grp_Categories ?gs) = [example_category ''C'' True]"
    by (simp_all add: example_account_def example_category_def example_payee_def example_group_def)
  note hit = get_single_scans_the_list [where rt = ?rt and c = example_client and b = "''b''"
      and accounts = ?as and groups = ?gs and payees = ?ps, of "''A''"]
    get_single_scans_the_list [where rt = ?rt and c = example_client and b = "''b''"
      and accounts = ?as and groups = ?gs and payees = ?ps, of "''C''"]
    get_single_scans_the_list [where rt = ?rt and c = example_client and b = "''b''"
      and accounts = ?as and groups = ?gs and payees = ?ps, of "''P''"]
  note miss = get_single_scans_the_list [where rt = ?rt and c = example_client and b = "''b''"
      and accounts = ?as and groups = ?gs and payees = ?ps, of "''Z''"]
  have a1: "fst (GetAccount ?rt example_client ''b'' ''A'') = Inr (example_account ''A'' 100000 True False True)"
    using hit(1) la ida by auto
  have a2: "fst (GetAccount ?rt example_client ''b'' ''Z'') = Inl (Errorf ''account not found: Z'' None)"
    using miss la ida by simp
  have c1: "fst (GetCategory ?rt example_client ''b'' ''C'') = Inr (example_category ''C'' True)"
    using hit(2) lc idc cs by auto
  have c2: "fst (GetCategory ?rt example_client ''b'' ''Z'') = Inl (Errorf ''category not found: Z'' None)"
    using miss lc idc cs by simp
  have p1: "fst (GetPayee ?rt example_client ''b'' ''P'') = Inr (example_payee ''P'' True)"
    using hit(3) lp idp by auto
  have p2: "fst (GetPayee ?rt example_client ''b'' ''Z'') = Inl (Errorf ''payee not found: Z'' None)"
    using miss lp idp by simp
  from a1 a2 c1 c2 p1 p2 show ?thesis by simp
qed


section \<open>C1: deleted transactions and transfers are left out\<close>

lemma category_step_skip:
  "tx_Deleted tx \<or> tx_TransferAccountID tx \<noteq> '''' \<Longrightarrow> category_step m tx = m"
  by (auto simp add: category_step_def isTransfer_def)

lemma month_step_skip:
  "tx_Deleted tx \<or> tx_TransferAccountID tx \<noteq> '''' \<Longrightarrow> month_step m tx = m"
  by (auto simp add: month_step_def isTransfer_def)

lemma payee_step_skip:
  "tx_Deleted tx \<or> tx_TransferAccountID tx \<noteq> '''' \<Longrightarrow> payee_step m tx = m"
  by (auto simp add: payee_step_def isTransfer_def)

text \<open>
  C1. Take any list of transactions and any transaction in it that is marked deleted or
  has a transfer account. The summaries by category, by month (for any list of months)
  and by payee are the same maps as for the list without that transaction: no bucket
  appears, and no outflow, inflow, net or count changes.
\<close>

theorem aggregation_skips_deleted_and_transfers:
  assumes "tx_Deleted tx \<or> tx_TransferAccountID tx \<noteq> ''''"
  shows "aggregateByCategory (xs @ tx # ys) = aggregateByCategory (xs @ ys)
       \<and> aggregateByMonth (xs @ tx # ys) months = aggregateByMonth (xs @ ys) months
       \<and> aggregateByPayee (xs @ tx # ys) = aggregateByPayee (xs @ ys)"
  by (simp add: aggregateByCategory_def aggregateByMonth_def aggregateByPayee_def
      category_step_skip [OF assms] month_step_skip [OF assms] payee_step_skip [OF assms])

theorem aggregation_skips_deleted_and_transfers_witness:
  "aggregateByCategory
     [example_tx ''t1'' ''2024-03-05'' (- 45670) ''shop'' ''food'',
      (example_tx ''t2'' ''2024-03-06'' (- 1000) ''shop'' ''food'')\<lparr>tx_Deleted := True\<rparr>,
      (example_tx ''t3'' ''2024-03-07'' 5000 ''shop'' ''food'')\<lparr>tx_TransferAccountID := ''savings''\<rparr>]
     ''food''
   = Some \<lparr>cs_CategoryID = ''food'', cs_CategoryName = ''food'', cs_CategoryGroupName = '''',
           cs_TotalOutflow = decimal3 45670, cs_TotalInflow = 0, cs_Net = - decimal3 45670,
           cs_TransactionCount = 1\<rparr>
   \<and> aggregateByMonth
     [example_tx ''t1'' ''2024-03-05'' (- 45670) ''shop'' ''food'',
      (example_tx ''t2'' ''2024-03-06'' (- 1000) ''shop'' ''food'')\<lparr>tx_Deleted := True\<rparr>] [''2024-03'']
     = aggregateByMonth [example_tx ''t1'' ''2024-03-05'' (- 45670) ''shop'' ''food''] [''2024-03'']
   \<and> aggregateByPayee
     [example_tx ''t1'' ''2024-03-05'' (- 45670) ''shop'' ''food'',
      (example_tx ''t3'' ''2024-03-07'' 5000 ''shop'' ''food'')\<lparr>tx_TransferAccountID := ''savings''\<rparr>]
     = aggregateByPayee [example_tx ''t1'' ''2024-03-05'' (- 45670) ''shop'' ''food'']"
proof -
  let ?t1 = "example_tx ''t1'' ''2024-03-05'' (- 45670) ''shop'' ''food''"
  let ?t2 = "(example_tx ''t2'' ''2024-03-06'' (- 1000) ''shop'' ''food'')\<lparr>tx_Deleted := True\<rparr>"
  let ?t3 = "(example_tx ''t3'' ''2024-03-07'' 5000 ''shop'' ''food'')\<lparr>tx_TransferAccountID := ''savings''\<rparr>"
  have d2: "tx_Deleted ?t2 \<or> tx_TransferAccountID ?t2 \<noteq> ''''"
    and d3: "tx_Deleted ?t3 \<or> tx_TransferAccountID ?t3 \<noteq> ''''"
    by simp_all
  note a = aggregation_skips_deleted_and_transfers [OF d2, of "[?t1]" "[?t3]" "[''2024-03'']"]
  note b = aggregation_skips_deleted_and_transfers [OF d3, of "[?t1]" "[]" "[''2024-03'']"]
  note c = aggregation_skips_deleted_and_transfers [OF d2, of "[?t1]" "[]" "[''2024-03'']"]
  have "aggregateByCategory [?t1, ?t2, ?t3] = aggregateByCategory [?t1]"
    using a b by simp
  moreover have "aggregateByCategory [?t1] ''food''
     = Some \<lparr>cs_CategoryID = ''food'', cs_CategoryName = ''food'', cs_CategoryGroupName = '''',
           cs_TotalOutflow = decimal3 45670, cs_TotalInflow = 0, cs_Net = - decimal3 45670,
           cs_TransactionCount = 1\<rparr>"
    by code_simp
  ultimately show ?thesis
    using b c by simp
qed


section \<open>C10: a split transaction counts at its parent\<close>

lemma foldl_map_invariant:
  "(\<And>m x. step m (g x) = step m x) \<Longrightarrow> foldl step m (map g xs) = foldl step m xs"
  by (induction xs arbitrary: m) simp_all

lemma category_step_subs: "category_step m (tx\<lparr>tx_Subtransactions := s\<rparr>) = category_step m tx"
  by (simp add: category_step_def isTransfer_def category_key_def Let_def split: option.split)

lemma month_step_subs: "month_step m (tx\<lparr>tx_Subtransactions := s\<rparr>) = month_step m tx"
  by (simp add: month_step_def isTransfer_def Let_def split: sum.split option.split)

lemma payee_step_subs: "payee_step m (tx\<lparr>tx_Subtransactions := s\<rparr>) = payee_step m tx"
  by (simp add: payee_step_def isTransfer_def payee_key_def Let_def split: option.split)

lemma category_step_counted:
  assumes "\<not> tx_Deleted tx" and "tx_TransferAccountID tx = ''''"
  shows "(\<forall>k. k \<noteq> category_key tx \<longrightarrow> category_step m tx k = m k)
       \<and> (\<exists>s. category_step m tx (category_key tx) = Some s
              \<and> cs_Net s = f64_add (case m (category_key tx) of None \<Rightarrow> 0 | Some old \<Rightarrow> cs_Net old)
                                    (MilliunitsToFloat (tx_Amount tx))
              \<and> cs_TransactionCount s
                  = (case m (category_key tx) of None \<Rightarrow> 0 | Some old \<Rightarrow> cs_TransactionCount old) + 1)"
  using assms by (simp add: category_step_def isTransfer_def Let_def split: option.split)

lemma payee_step_counted:
  assumes "\<not> tx_Deleted tx" and "tx_TransferAccountID tx = ''''"
  shows "(\<forall>k. k \<noteq> payee_key tx \<longrightarrow> payee_step m tx k = m k)
       \<and> (\<exists>s. payee_step m tx (payee_key tx) = Some s
              \<and> ps_Net s = f64_add (case m (payee_key tx) of None \<Rightarrow> 0 | Some old \<Rightarrow> ps_Net old)
                                    (MilliunitsToFloat (tx_Amount tx))
              \<and> ps_TransactionCount s
                  = (case m (payee_key tx) of None \<Rightarrow> 0 | Some old \<Rightarrow> ps_TransactionCount old) + 1)"
  using assms by (simp add: payee_step_def isTransfer_def Let_def split: option.split)

text \<open>
  C10. The three aggregation functions do not read \<open>Subtransactions\<close>: replacing the
  splits of every transaction by anything else leaves the three maps as they are. When a
  transaction that is neither deleted nor a transfer is processed, every bucket other than
  the one of its own category ID (\<open>uncategorized\<close> for the empty ID) stays as it was, and
  that bucket receives the whole amount of the transaction in its net and one more in its
  count; the same holds by payee, with the bucket \<open>no-payee\<close> for the empty ID.
\<close>

theorem splits_are_counted_at_the_parent:
  "aggregateByCategory (map (\<lambda>tx. tx\<lparr>tx_Subtransactions := subs tx\<rparr>) txs) = aggregateByCategory txs
   \<and> aggregateByMonth (map (\<lambda>tx. tx\<lparr>tx_Subtransactions := subs tx\<rparr>) txs) months
       = aggregateByMonth txs months
   \<and> aggregateByPayee (map (\<lambda>tx. tx\<lparr>tx_Subtransactions := subs tx\<rparr>) txs) = aggregateByPayee txs
   \<and> category_key tx = (if tx_CategoryID tx = '''' then ''uncategorized'' else tx_CategoryID tx)
   \<and> payee_key tx = (if tx_PayeeID tx = '''' then ''no-payee'' else tx_PayeeID tx)
   \<and> (\<not> tx_Deleted tx \<and> tx_TransferAccountID tx = '''' \<longrightarrow>
        (\<forall>k. k \<noteq> category_key tx \<longrightarrow> aggregateByCategory (xs @ [tx]) k = aggregateByCategory xs k)
        \<and> (\<exists>s. aggregateByCategory (xs @ [tx]) (category_key tx) = Some s
              \<and> cs_Net s = f64_add (case aggregateByCategory xs (category_key tx) of
                                       None \<Rightarrow> 0 | Some old \<Rightarrow> cs_Net old)
                                    (MilliunitsToFloat (tx_Amount tx))
              \<and> cs_TransactionCount s
                  = (case aggregateByCategory xs (category_key tx) of
                       None \<Rightarrow> 0 | Some old \<Rightarrow> cs_TransactionCount old) + 1)
        \<and> (\<forall>k. k \<noteq> payee_key tx \<longrightarrow> aggregateByPayee (xs @ [tx]) k = aggregateByPayee xs k)
        \<and> (\<exists>s. aggregateByPayee (xs @ [tx]) (payee_key tx) = Some s
              \<and> ps_Net s = f64_add (case aggregateByPayee xs (payee_key tx) of
                                       None \<Rightarrow> 0 | Some old \<Rightarrow> ps_Net old)
                                    (MilliunitsToFloat (tx_Amount tx))
              \<and> ps_TransactionCount s
                  = (case aggregateByPayee xs (payee_key tx) of
                       None \<Rightarrow> 0 | Some old \<Rightarrow> ps_TransactionCount old) + 1))"
proof (intro conjI impI)
  show "aggregateByCategory (map (\<lambda>tx. tx\<lparr>tx_Subtransactions := subs tx\<rparr>) txs) = aggregateByCategory txs"
    unfolding aggregateByCategory_def by (rule foldl_map_invariant) (rule category_step_subs)
  show "aggregateByMonth (map (\<lambda>tx. tx\<lparr>tx_Subtransactions := subs tx\<rparr>) txs) months
      = aggregateByMonth txs months"
    unfolding aggregateByMonth_def by (rule foldl_map_invariant) (rule month_step_subs)
  show "aggregateByPayee (map (\<lambda>tx. tx\<lparr>tx_Subtransactions := subs tx\<rparr>) txs) = aggregateByPayee txs"
    unfolding aggregateByPayee_def by (rule foldl_map_invariant) (rule payee_step_subs)
  show "category_key tx = (if tx_CategoryID tx = '''' then ''uncategorized'' else tx_CategoryID tx)"
    by (simp add: category_key_def)
  show "payee_key tx = (if tx_PayeeID tx = '''' then ''no-payee'' else tx_PayeeID tx)"
    by (simp add: payee_key_def)
next
  assume a: "\<not> tx_Deleted tx \<and> tx_TransferAccountID tx = ''''"
  then have d: "\<not> tx_Deleted tx" and t: "tx_TransferAccountID tx = ''''" by simp_all
  have c: "aggregateByCategory (xs @ [tx]) = category_step (aggregateByCategory xs) tx"
    and p: "aggregateByPayee (xs @ [tx]) = payee_step (aggregateByPayee xs) tx"
    by (simp_all add: aggregateByCategory_def aggregateByPayee_def)
  show "\<forall>k. k \<noteq> category_key tx \<longrightarrow> aggregateByCategory (xs @ [tx]) k = aggregateByCategory xs k"
    unfolding c using category_step_counted [OF d t] by blast
  show "\<exists>s. aggregateByCategory (xs @ [tx]) (category_key tx) = Some s
      \<and> cs_Net s = f64_add (case aggregateByCategory xs (category_key tx) of
                               None \<Rightarrow> 0 | Some old \<Rightarrow> cs_Net old)
                            (MilliunitsToFloat (tx_Amount tx))
      \<and> cs_TransactionCount s
          = (case aggregateByCategory xs (category_key tx) of
               None \<Rightarrow> 0 | Some old \<Rightarrow> cs_TransactionCount old) + 1"
    unfolding c using category_step_counted [OF d t] by blast
  show "\<forall>k. k \<noteq> payee_key tx \<longrightarrow> aggregateByPayee (xs @ [tx]) k = aggregateByPayee xs k"
    unfolding p using payee_step_counted [OF d t] by blast
  show "\<exists>s. aggregateByPayee (xs @ [tx]) (payee_key tx) = Some s
      \<and> ps_Net s = f64_add (case aggregateByPayee xs (payee_key tx) of
                               None \<Rightarrow> 0 | Some old \<Rightarrow> ps_Net old)
                            (MilliunitsToFloat (tx_Amount tx))
      \<and> ps_TransactionCount s
          = (case aggregateByPayee xs (payee_key tx) of
               None \<Rightarrow> 0 | Some old \<Rightarrow> ps_TransactionCount old) + 1"
    unfolding p using payee_step_counted [OF d t] by blast
qed

theorem splits_are_counted_at_the_parent_witness:
  "(\<exists>s. aggregateByCategory
          [(example_tx ''t1'' ''2024-03-05'' (- 100000) ''shop'' ''split'')
             \<lparr>tx_Subtransactions := [example_sub ''s1'' (- 60000) ''baker'' ''food'',
                                       example_sub ''s2'' (- 40000) ''cinema'' ''fun'']\<rparr>] ''split'' = Some s
        \<and> cs_Net s = - 100 \<and> cs_TransactionCount s = 1)
   \<and> aggregateByCategory
          [(example_tx ''t1'' ''2024-03-05'' (- 100000) ''shop'' ''split'')
             \<lparr>tx_Subtransactions := [example_sub ''s1'' (- 60000) ''baker'' ''food'',
                                       example_sub ''s2'' (- 40000) ''cinema'' ''fun'']\<rparr>] ''food'' = None
   \<and> aggregateByPayee
          [(example_tx ''t1'' ''2024-03-05'' (- 100000) ''shop'' ''split'')
             \<lparr>tx_Subtransactions := [example_sub ''s1'' (- 60000) ''baker'' ''food'',
                                       example_sub ''s2'' (- 40000) ''cinema'' ''fun'']\<rparr>] ''baker'' = None"
proof -
  let ?tx = "(example_tx ''t1'' ''2024-03-05'' (- 100000) ''shop'' ''split'')
             \<lparr>tx_Subtransactions := [example_sub ''s1'' (- 60000) ''baker'' ''food'',
                                       example_sub ''s2'' (- 40000) ''cinema'' ''fun'']\<rparr>"
  have h: "\<not> tx_Deleted ?tx \<and> tx_TransferAccountID ?tx = ''''"
    by (simp add: example_tx_def)
  have ck: "category_key ?tx = ''split''" and pk: "payee_key ?tx = ''shop''"
    by (simp_all add: category_key_def payee_key_def example_tx_def)
  have e: "aggregateByCategory [] k = None" "aggregateByPayee [] k = None" for k
    by (simp_all add: aggregateByCategory_def aggregateByPayee_def)
  have amt: "f64_add 0 (MilliunitsToFloat (tx_Amount (example_tx ''t1'' ''2024-03-05'' (- 100000) ''shop'' ''split''))) = - 100"
    by code_simp
  note t = splits_are_counted_at_the_parent [of "\<lambda>tx. []" "[]" "[]" ?tx "[]"]
  from t h obtain s where s: "aggregateByCategory ([] @ [?tx]) (category_key ?tx) = Some s"
      "cs_Net s = f64_add (case aggregateByCategory [] (category_key ?tx) of
                             None \<Rightarrow> 0 | Some old \<Rightarrow> cs_Net old) (MilliunitsToFloat (tx_Amount ?tx))"
      "cs_TransactionCount s = (case aggregateByCategory [] (category_key ?tx) of
                                  None \<Rightarrow> 0 | Some old \<Rightarrow> cs_TransactionCount old) + 1"
    by blast
  have 1: "\<exists>s. aggregateByCategory [?tx] ''split'' = Some s \<and> cs_Net s = - 100 \<and> cs_TransactionCount s = 1"
    using s by (simp add: ck e amt)
  have 2: "aggregateByCategory [?tx] ''food'' = None"
    using t h by (simp add: ck e)
  have 3: "aggregateByPayee [?tx] ''baker'' = None"
    using t h by (simp add: pk e)
  from 1 2 3 show ?thesis by blast
qed


section \<open>C4: one bucket for every month of the list\<close>

lemma month_init_other: "k \<notin> set months \<Longrightarrow> foldl month_init m months k = m k"
  by (induction months arbitrary: m) (auto simp add: month_init_def)

lemma month_init_value:
  "k \<in> set months \<Longrightarrow>
     foldl month_init m months k
       = Some \<lparr>ms_Month = k, ms_TotalOutflow = 0, ms_TotalInflow = 0, ms_Net = 0, ms_TransactionCount = 0\<rparr>"
proof (induction months arbitrary: m)
  case Nil
  then show ?case by simp
next
  case (Cons a months)
  show ?case
  proof (cases "k \<in> set months")
    case True
    then show ?thesis using Cons.IH by simp
  next
    case False
    then have k: "k = a" using Cons.prems by simp
    have "foldl month_init m (a # months) k = month_init m a k"
      using month_init_other [OF False, of "month_init m a"] by simp
    also have "\<dots> = Some \<lparr>ms_Month = k, ms_TotalOutflow = 0, ms_TotalInflow = 0, ms_Net = 0,
        ms_TransactionCount = 0\<rparr>"
      by (simp add: month_init_def k)
    finally show ?thesis .
  qed
qed

lemma month_init_dom: "dom (foldl month_init m months) = dom m \<union> set months"
  by (induction months arbitrary: m) (auto simp add: month_init_def)

lemma month_step_cases:
  "month_step m tx = m
   \<or> (\<exists>d s s'. \<not> isTransfer tx \<and> \<not> tx_Deleted tx \<and> parseDate (tx_Date tx) = Inr d
         \<and> m (getMonthString d) = Some s \<and> ms_Month s' = ms_Month s
         \<and> month_step m tx = m(getMonthString d \<mapsto> s'))"
proof (cases "isTransfer tx \<or> tx_Deleted tx")
  case True
  then show ?thesis by (auto simp add: month_step_def)
next
  case False
  show ?thesis
  proof (cases "parseDate (tx_Date tx)")
    case (Inl err)
    then show ?thesis using False by (simp add: month_step_def)
  next
    case (Inr d)
    show ?thesis
    proof (cases "m (getMonthString d)")
      case None
      then show ?thesis using False Inr by (simp add: month_step_def)
    next
      case (Some s)
      define s' where "s' = the (month_step m tx (getMonthString d))"
      have "ms_Month s' = ms_Month s"
        using False Inr Some by (simp add: s'_def month_step_def Let_def)
      moreover have "month_step m tx = m(getMonthString d \<mapsto> s')"
        using False Inr Some by (simp add: s'_def month_step_def Let_def)
      ultimately show ?thesis using False Inr Some by blast
    qed
  qed
qed

lemma month_step_dom: "dom (month_step m tx) = dom m"
  using month_step_cases [of m tx]
proof
  assume "month_step m tx = m"
  then show ?thesis by simp
next
  assume "\<exists>d s s'. \<not> isTransfer tx \<and> \<not> tx_Deleted tx \<and> parseDate (tx_Date tx) = Inr d
         \<and> m (getMonthString d) = Some s \<and> ms_Month s' = ms_Month s
         \<and> month_step m tx = m(getMonthString d \<mapsto> s')"
  then obtain d s s' where b: "m (getMonthString d) = Some s"
      "month_step m tx = m(getMonthString d \<mapsto> s')"
    by blast
  have "getMonthString d \<in> dom m" using b(1) by (rule domI)
  then show ?thesis using b(2) by (simp add: insert_absorb)
qed

lemma month_fold_dom: "dom (foldl month_step m txs) = dom m"
  by (induction txs arbitrary: m) (simp_all add: month_step_dom)

lemma month_step_name:
  assumes "\<forall>k s. m k = Some s \<longrightarrow> ms_Month s = k"
  shows "\<forall>k s. month_step m tx k = Some s \<longrightarrow> ms_Month s = k"
proof (intro allI impI)
  fix k s
  assume a: "month_step m tx k = Some s"
  from month_step_cases [of m tx] show "ms_Month s = k"
  proof
    assume "month_step m tx = m"
    with a have "m k = Some s" by (simp only:)
    with assms show ?thesis by blast
  next
    assume "\<exists>d s0 s'. \<not> isTransfer tx \<and> \<not> tx_Deleted tx \<and> parseDate (tx_Date tx) = Inr d
         \<and> m (getMonthString d) = Some s0 \<and> ms_Month s' = ms_Month s0
         \<and> month_step m tx = m(getMonthString d \<mapsto> s')"
    then obtain d s0 s' where b: "m (getMonthString d) = Some s0" "ms_Month s' = ms_Month s0"
        "month_step m tx = m(getMonthString d \<mapsto> s')"
      by blast
    have s0: "ms_Month s0 = getMonthString d"
      using assms b(1) by blast
    show ?thesis
    proof (cases "k = getMonthString d")
      case True
      have "(m(getMonthString d \<mapsto> s')) k = Some s"
        using a by (simp only: b(3))
      then have "s = s'" using True by simp
      then show ?thesis by (simp only: b(2) s0 True)
    next
      case False
      have "(m(getMonthString d \<mapsto> s')) k = Some s"
        using a by (simp only: b(3))
      then have "m k = Some s" using False by simp
      with assms show ?thesis by blast
    qed
  qed
qed

lemma month_fold_name:
  "\<forall>k s. m k = Some s \<longrightarrow> ms_Month s = k \<Longrightarrow>
   \<forall>k s. foldl month_step m txs k = Some s \<longrightarrow> ms_Month s = k"
proof (induction txs arbitrary: m)
  case Nil
  then show ?case by (simp only: foldl_Nil)
next
  case (Cons tx txs)
  have "\<forall>k s. month_step m tx k = Some s \<longrightarrow> ms_Month s = k"
    using Cons.prems by (rule month_step_name)
  then have "\<forall>k s. foldl month_step (month_step m tx) txs k = Some s \<longrightarrow> ms_Month s = k"
    by (rule Cons.IH)
  then show ?case by (simp only: foldl_Cons)
qed

lemma month_step_noop:
  assumes "\<forall>d. parseDate (tx_Date tx) = Inr d \<longrightarrow> getMonthString d \<notin> dom m"
  shows "month_step m tx = m"
  using month_step_cases [of m tx] assms by blast

lemma month_step_other:
  assumes "isTransfer tx \<or> tx_Deleted tx
      \<or> (\<forall>d. parseDate (tx_Date tx) = Inr d \<longrightarrow> getMonthString d \<noteq> k)"
  shows "month_step m tx k = m k"
  using month_step_cases [of m tx]
proof
  assume "month_step m tx = m"
  then show ?thesis by simp
next
  assume "\<exists>d s s'. \<not> isTransfer tx \<and> \<not> tx_Deleted tx \<and> parseDate (tx_Date tx) = Inr d
         \<and> m (getMonthString d) = Some s \<and> ms_Month s' = ms_Month s
         \<and> month_step m tx = m(getMonthString d \<mapsto> s')"
  then obtain d s' where b: "\<not> isTransfer tx" "\<not> tx_Deleted tx" "parseDate (tx_Date tx) = Inr d"
      "month_step m tx = m(getMonthString d \<mapsto> s')"
    by blast
  then have "getMonthString d \<noteq> k" using assms by simp
  then show ?thesis using b(4) by simp
qed

lemma month_fold_other:
  "\<forall>tx\<in>set txs. isTransfer tx \<or> tx_Deleted tx
      \<or> (\<forall>d. parseDate (tx_Date tx) = Inr d \<longrightarrow> getMonthString d \<noteq> k)
    \<Longrightarrow> foldl month_step m txs k = m k"
  by (induction txs arbitrary: m) (simp_all add: month_step_other)

lemma month_rows_total:
  assumes "set months \<subseteq> dom summaries"
  shows "\<exists>totalOutflow totalInflow.
           month_rows summaries months (acc, tout, tin)
             = Some (acc @ map (\<lambda>m. the (summaries m)) months, totalOutflow, totalInflow)"
  using assms
proof (induction months arbitrary: acc tout tin)
  case Nil
  then show ?case by simp
next
  case (Cons m months)
  then obtain s where s: "summaries m = Some s" by auto
  have "set months \<subseteq> dom summaries" using Cons.prems by simp
  from Cons.IH [OF this, of "acc @ [s]" "f64_add tout (ms_TotalOutflow s)" "f64_add tin (ms_TotalInflow s)"]
  show ?case by (simp add: s)
qed

text \<open>
  C4. For every list of transactions and every list of months: the summaries have exactly
  the months of the list as keys, and the loop that lays them out returns one summary for
  every entry of the list, in the order of the list, without meeting a missing month. A
  month of the list in which no counted transaction falls has the summary with its name
  and zero in every other field. A transaction whose date does not parse, or whose month
  is not in the list, changes nothing: the summaries are the same as without it.
\<close>

theorem month_aggregation_keeps_the_supplied_months:
  "(\<exists>monthData totalOutflow totalInflow.
       month_rows (aggregateByMonth txs months) months ([], 0, 0)
         = Some (monthData, totalOutflow, totalInflow)
       \<and> map ms_Month monthData = months)
   \<and> dom (aggregateByMonth txs months) = set months
   \<and> (m \<in> set months
        \<and> (\<forall>tx\<in>set txs. isTransfer tx \<or> tx_Deleted tx
               \<or> (\<forall>d. parseDate (tx_Date tx) = Inr d \<longrightarrow> getMonthString d \<noteq> m))
       \<longrightarrow> aggregateByMonth txs months m
            = Some \<lparr>ms_Month = m, ms_TotalOutflow = 0, ms_TotalInflow = 0, ms_Net = 0,
                    ms_TransactionCount = 0\<rparr>)
   \<and> ((\<forall>d. parseDate (tx_Date tx) = Inr d \<longrightarrow> getMonthString d \<notin> set months)
       \<longrightarrow> aggregateByMonth (xs @ tx # ys) months = aggregateByMonth (xs @ ys) months)"
proof (intro conjI impI)
  show dom: "dom (aggregateByMonth txs months) = set months"
    by (simp add: aggregateByMonth_def month_fold_dom month_init_dom)
  have names: "\<forall>k s. aggregateByMonth txs months k = Some s \<longrightarrow> ms_Month s = k"
    unfolding aggregateByMonth_def
  proof (rule month_fold_name, intro allI impI)
    fix k s
    assume a: "foldl month_init Map.empty months k = Some s"
    then have "k \<in> set months"
      using month_init_dom [of Map.empty months] by auto
    then show "ms_Month s = k"
      using a month_init_value [of k months Map.empty] by auto
  qed
  have "set months \<subseteq> dom (aggregateByMonth txs months)"
    using dom by simp
  then obtain totalOutflow totalInflow where
    rows: "month_rows (aggregateByMonth txs months) months ([], 0, 0)
      = Some ([] @ map (\<lambda>m. the (aggregateByMonth txs months m)) months, totalOutflow, totalInflow)"
    using month_rows_total by blast
  have "map ms_Month (map (\<lambda>m. the (aggregateByMonth txs months m)) months) = months"
  proof -
    have "ms_Month (the (aggregateByMonth txs months k)) = k" if "k \<in> set months" for k
    proof -
      from that dom obtain s where "aggregateByMonth txs months k = Some s" by auto
      then show ?thesis using names by simp
    qed
    then show ?thesis by (simp add: map_idI)
  qed
  with rows show "\<exists>monthData totalOutflow totalInflow.
       month_rows (aggregateByMonth txs months) months ([], 0, 0)
         = Some (monthData, totalOutflow, totalInflow)
       \<and> map ms_Month monthData = months"
    by simp
next
  assume a: "m \<in> set months
      \<and> (\<forall>tx\<in>set txs. isTransfer tx \<or> tx_Deleted tx
             \<or> (\<forall>d. parseDate (tx_Date tx) = Inr d \<longrightarrow> getMonthString d \<noteq> m))"
  then have "aggregateByMonth txs months m = foldl month_init Map.empty months m"
    unfolding aggregateByMonth_def by (intro month_fold_other) simp
  then show "aggregateByMonth txs months m
      = Some \<lparr>ms_Month = m, ms_TotalOutflow = 0, ms_TotalInflow = 0, ms_Net = 0,
              ms_TransactionCount = 0\<rparr>"
    using a by (simp add: month_init_value)
next
  assume a: "\<forall>d. parseDate (tx_Date tx) = Inr d \<longrightarrow> getMonthString d \<notin> set months"
  let ?m = "foldl month_step (foldl month_init Map.empty months) xs"
  have "dom ?m = set months"
    by (simp add: month_fold_dom month_init_dom)
  then have "month_step ?m tx = ?m"
    using a by (intro month_step_noop) simp
  then show "aggregateByMonth (xs @ tx # ys) months = aggregateByMonth (xs @ ys) months"
    by (simp add: aggregateByMonth_def)
qed


theorem month_aggregation_keeps_the_supplied_months_witness:
  "month_rows
     (aggregateByMonth
        [example_tx ''t1'' ''2024-03-05'' (- 45670) ''shop'' ''food'',
         example_tx ''t2'' ''not a date'' (- 1000) ''shop'' ''food'',
         example_tx ''t3'' ''2023-12-31'' (- 2000) ''shop'' ''food'']
        [''2024-02'', ''2024-03''])
     [''2024-02'', ''2024-03''] ([], 0, 0)
   = Some ([\<lparr>ms_Month = ''2024-02'', ms_TotalOutflow = 0, ms_TotalInflow = 0, ms_Net = 0,
              ms_TransactionCount = 0\<rparr>,
            \<lparr>ms_Month = ''2024-03'', ms_TotalOutflow = decimal3 45670, ms_TotalInflow = 0,
              ms_Net = - decimal3 45670, ms_TransactionCount = 1\<rparr>],
           decimal3 45670, 0)"
proof -
  let ?t1 = "example_tx ''t1'' ''2024-03-05'' (- 45670) ''shop'' ''food''"
  let ?t2 = "example_tx ''t2'' ''not a date'' (- 1000) ''shop'' ''food''"
  let ?t3 = "example_tx ''t3'' ''2023-12-31'' (- 2000) ''shop'' ''food''"
  let ?months = "[''2024-02'', ''2024-03'']"
  have p2: "parseDate (tx_Date ?t2) = Inl (wrapf ''invalid date format, expected YYYY-MM-DD: ''
      (Errorf ''parsing time not a date'' None))"
    by code_simp
  have p3: "parseDate (tx_Date ?t3) = Inr \<lparr>year = 2023, month = 12, day = 31\<rparr>"
    by code_simp
  have g3: "getMonthString \<lparr>year = 2023, month = 12, day = 31\<rparr> = ''2023-12''"
    by code_simp
  have h2: "\<forall>d. parseDate (tx_Date ?t2) = Inr d \<longrightarrow> getMonthString d \<notin> set ?months"
    by (simp only: p2) simp
  have h3: "\<forall>d. parseDate (tx_Date ?t3) = Inr d \<longrightarrow> getMonthString d \<notin> set ?months"
    by (simp only: p3) (simp add: g3)
  have a: "aggregateByMonth ([?t1] @ ?t2 # [?t3]) ?months = aggregateByMonth ([?t1] @ [?t3]) ?months"
    using month_aggregation_keeps_the_supplied_months
      [where tx = ?t2 and xs = "[?t1]" and ys = "[?t3]" and months = ?months] h2
    by blast
  have b: "aggregateByMonth ([?t1] @ ?t3 # []) ?months = aggregateByMonth ([?t1] @ []) ?months"
    using month_aggregation_keeps_the_supplied_months
      [where tx = ?t3 and xs = "[?t1]" and ys = "[]" and months = ?months] h3
    by blast
  have c: "aggregateByMonth [?t1, ?t2, ?t3] ?months = aggregateByMonth [?t1] ?months"
    using a b by simp
  have "month_rows (aggregateByMonth [?t1] ?months) ?months ([], 0, 0)
     = Some ([\<lparr>ms_Month = ''2024-02'', ms_TotalOutflow = 0, ms_TotalInflow = 0, ms_Net = 0,
              ms_TransactionCount = 0\<rparr>,
            \<lparr>ms_Month = ''2024-03'', ms_TotalOutflow = decimal3 45670, ms_TotalInflow = 0,
              ms_Net = - decimal3 45670, ms_TransactionCount = 1\<rparr>],
           decimal3 45670, 0)"
    by code_simp
  then show ?thesis
    by (simp only: c)
qed


section \<open>C7: the snapshot of account balances\<close>

lemma balance_fold:
  "foldl balance_step (rows, on, off) accounts =
     (rows @ map display_balance (filter (\<lambda>a. \<not> acct_Deleted a) accounts),
      running_total on (\<lambda>a. \<not> acct_Deleted a \<and> \<not> acct_Closed a \<and> acct_OnBudget a) accounts,
      running_total off (\<lambda>a. \<not> acct_Deleted a \<and> \<not> acct_Closed a \<and> \<not> acct_OnBudget a) accounts)"
proof (induction accounts arbitrary: rows on off)
  case Nil
  show ?case by (simp add: running_total_def)
next
  case (Cons a accounts)
  have step: "balance_step (rows, on, off) a =
      (if acct_Deleted a then (rows, on, off)
       else (rows @ [display_balance a],
             if \<not> acct_Closed a \<and> acct_OnBudget a
             then f64_add on (MilliunitsToFloat (acct_Balance a)) else on,
             if \<not> acct_Closed a \<and> \<not> acct_OnBudget a
             then f64_add off (MilliunitsToFloat (acct_Balance a)) else off))"
    by (simp add: balance_step_def display_balance_def Let_def)
  show ?case
    unfolding foldl_Cons step
    by (simp add: Cons.IH running_total_def)
qed

text \<open>
  C7. When the handler has a budget ID and the listing of the accounts succeeds, the
  result lists the accounts that are not deleted, in their order, each with its three
  balances converted by \<open>MilliunitsToFloat\<close>; \<open>total_on_budget\<close> is the running sum of the
  displayed balances of the accounts neither deleted nor closed and on budget,
  \<open>total_off_budget\<close> the same for those off budget, and \<open>net_worth\<close> is the sum of the
  two. The handler adds no effect to those of the listing.
\<close>

theorem account_balances_snapshot:
  assumes "arguments = Some args"
    and "string_arg args ''budget_id'' = Some budgetID"
    and "budgetID \<noteq> ''''"
    and "ListAccounts rt c budgetID = (Inr accounts, trace)"
  shows "NewGetAccountBalancesTool_handler rt c arguments =
     (ToolResultText
        \<lparr>br_accounts = map display_balance (filter (\<lambda>a. \<not> acct_Deleted a) accounts),
         br_total_on_budget =
           running_total 0 (\<lambda>a. \<not> acct_Deleted a \<and> \<not> acct_Closed a \<and> acct_OnBudget a) accounts,
         br_total_off_budget =
           running_total 0 (\<lambda>a. \<not> acct_Deleted a \<and> \<not> acct_Closed a \<and> \<not> acct_OnBudget a) accounts,
         br_net_worth =
           f64_add
             (running_total 0 (\<lambda>a. \<not> acct_Deleted a \<and> \<not> acct_Closed a \<and> acct_OnBudget a) accounts)
             (running_total 0 (\<lambda>a. \<not> acct_Deleted a \<and> \<not> acct_Closed a \<and> \<not> acct_OnBudget a) accounts)\<rparr>,
      trace)"
  by (simp add: NewGetAccountBalancesTool_handler_def assms balance_fold)

theorem account_balances_snapshot_witness:
  "NewGetAccountBalancesTool_handler
     (example_directory
        [example_account ''A'' 100000 True False False, example_account ''B'' 50000 False False False,
         example_account ''C'' 99999 True True False] [] [])
     example_client (Some [''budget_id'' \<mapsto> StringArg ''b''])
   = (ToolResultText
        \<lparr>br_accounts =
           [display_balance (example_account ''A'' 100000 True False False),
            display_balance (example_account ''B'' 50000 False False False),
            display_balance (example_account ''C'' 99999 True True False)],
         br_total_on_budget = 100, br_total_off_budget = 50, br_net_worth = 150\<rparr>,
      [HttpDo (the_request example_client ''GET'' ''/budgets/b/accounts'' None False)])
   \<and> ab_CurrentBalance (display_balance (example_account ''C'' 99999 True True False)) = decimal3 99999
   \<and> ab_Closed (display_balance (example_account ''C'' 99999 True True False))"
proof -
  let ?as = "[example_account ''A'' 100000 True False False, example_account ''B'' 50000 False False False,
              example_account ''C'' 99999 True True False]"
  let ?args = "[''budget_id'' \<mapsto> StringArg ''b'']"
  have h1: "Some ?args = Some ?args" by simp
  have h2: "string_arg ?args ''budget_id'' = Some ''b''"
    by (simp add: string_arg_def)
  have h3: "''b'' \<noteq> ''''" by simp
  have h4: "ListAccounts (example_directory ?as [] []) example_client ''b''
      = (Inr ?as, [HttpDo (the_request example_client ''GET'' ''/budgets/b/accounts'' None False)])"
    using example_directory_lists(1) [of ?as "[]" "[]" "''b''"] by simp
  have f: "filter (\<lambda>a. \<not> acct_Deleted a) ?as = ?as"
    by (simp add: example_account_def)
  have on: "running_total 0 (\<lambda>a. \<not> acct_Deleted a \<and> \<not> acct_Closed a \<and> acct_OnBudget a) ?as = 100"
    by code_simp
  have off: "running_total 0 (\<lambda>a. \<not> acct_Deleted a \<and> \<not> acct_Closed a \<and> \<not> acct_OnBudget a) ?as = 50"
    by code_simp
  have net: "f64_add 100 50 = 150"
    by code_simp
  have c: "ab_CurrentBalance (display_balance (example_account ''C'' 99999 True True False)) = decimal3 99999"
    by code_simp
  have cl: "ab_Closed (display_balance (example_account ''C'' 99999 True True False))"
    by (simp add: display_balance_def example_account_def)
  note t = account_balances_snapshot [OF h1 h2 h3 h4, unfolded f on off net]
  have m: "map display_balance ?as =
      [display_balance (example_account ''A'' 100000 True False False),
       display_balance (example_account ''B'' 50000 False False False),
       display_balance (example_account ''C'' 99999 True True False)]"
    by simp
  show ?thesis
    using t c cl unfolding m by (intro conjI)
qed


section \<open>C5: validation of the date range\<close>

lemma range_too_large_iff:
  assumes "absDays ds \<le> absDays du"
  shows "730 * 24 * Hour < time_Sub du ds \<longleftrightarrow> 730 < absDays du - absDays ds"
proof -
  define n where "n = absDays du - absDays ds"
  have n0: "0 \<le> n" using assms by (simp add: n_def)
  have sub: "time_Sub du ds = (if 9223372036854775807 < n * 86400000000000 then 9223372036854775807
      else n * 86400000000000)"
    using n0 by (simp add: time_Sub_def Let_def maxDuration_def minDuration_def Hour_def Second_def n_def)
  show ?thesis
    unfolding sub n_def [symmetric] by (simp add: Hour_def Second_def)
qed

lemma validateDateRange_None_iff:
  "validateDateRange s u = None \<longleftrightarrow>
     (\<exists>ds du. parseDate s = Inr ds \<and> parseDate u = Inr du
        \<and> absDays ds \<le> absDays du \<and> absDays du - absDays ds \<le> 730)"
proof (cases "parseDate s")
  case (Inl err)
  then show ?thesis by (simp add: validateDateRange_def)
next
  case s: (Inr ds)
  show ?thesis
  proof (cases "parseDate u")
    case (Inl err)
    then show ?thesis using s by (simp add: validateDateRange_def)
  next
    case u: (Inr du)
    show ?thesis
    proof (cases "absDays du < absDays ds")
      case True
      then show ?thesis using s u by (simp add: validateDateRange_def time_Before_def)
    next
      case False
      then have le: "absDays ds \<le> absDays du" by simp
      show ?thesis
        using s u False le range_too_large_iff [OF le]
        by (simp add: validateDateRange_def time_Before_def Let_def)
    qed
  qed
qed

text \<open>
  C5. \<open>validateDateRange\<close> returns an error exactly when the start does not parse, or the
  end does not parse, or both parse and the end is an earlier day than the start or more
  than 730 days after it; a date that parses is accepted as both ends. When it returns an
  error for the dates in the arguments, the category handler and the payee handler return
  that error's text as a tool error and have no effect: no request is sent.
\<close>

theorem date_range_validation:
  "(validateDateRange s u \<noteq> None \<longleftrightarrow>
      (\<forall>ds. parseDate s \<noteq> Inr ds) \<or> (\<forall>du. parseDate u \<noteq> Inr du)
      \<or> (\<exists>ds du. parseDate s = Inr ds \<and> parseDate u = Inr du
            \<and> (absDays du < absDays ds \<or> 730 < absDays du - absDays ds)))
   \<and> (parseDate s = Inr ds \<longrightarrow> validateDateRange s s = None)
   \<and> (string_arg args ''budget_id'' = Some budgetID \<and> budgetID \<noteq> ''''
       \<and> string_arg args ''since_date'' = Some s \<and> s \<noteq> ''''
       \<and> string_arg args ''until_date'' = Some u \<and> u \<noteq> ''''
       \<and> validateDateRange s u = Some err
       \<longrightarrow> NewGetSpendingByCategoryTool_handler rt c sortc keys (Some args)
             = (ToolResultError (Error err), [])
           \<and> NewGetPayeeSummaryTool_handler rt c int_overflow sortp keys (Some args)
             = (ToolResultError (Error err), []))"
proof (intro conjI impI)
  show "validateDateRange s u \<noteq> None \<longleftrightarrow>
      (\<forall>ds. parseDate s \<noteq> Inr ds) \<or> (\<forall>du. parseDate u \<noteq> Inr du)
      \<or> (\<exists>ds du. parseDate s = Inr ds \<and> parseDate u = Inr du
            \<and> (absDays du < absDays ds \<or> 730 < absDays du - absDays ds))"
    unfolding validateDateRange_None_iff by (auto simp add: not_le not_less)
  show "validateDateRange s s = None" if "parseDate s = Inr ds"
    unfolding validateDateRange_None_iff using that by simp
next
  assume a: "string_arg args ''budget_id'' = Some budgetID \<and> budgetID \<noteq> ''''
       \<and> string_arg args ''since_date'' = Some s \<and> s \<noteq> ''''
       \<and> string_arg args ''until_date'' = Some u \<and> u \<noteq> ''''
       \<and> validateDateRange s u = Some err"
  then show "NewGetSpendingByCategoryTool_handler rt c sortc keys (Some args)
      = (ToolResultError (Error err), [])"
    by (simp add: NewGetSpendingByCategoryTool_handler_def)
  from a show "NewGetPayeeSummaryTool_handler rt c int_overflow sortp keys (Some args)
      = (ToolResultError (Error err), [])"
    by (simp add: NewGetPayeeSummaryTool_handler_def)
qed

theorem date_range_validation_witness:
  "NewGetSpendingByCategoryTool_handler (example_ledger []) example_client example_sort []
      (Some (example_args ''2024-06-01'' ''2024-01-01''))
     = (ToolResultError ''until_date must be after since_date'', [])
   \<and> NewGetPayeeSummaryTool_handler (example_ledger []) example_client amd64_overflow example_sort []
      (Some (example_args ''2022-01-01'' ''2024-06-01''))
     = (ToolResultError ''date range too large (max 2 years), consider using a smaller range for better performance'', [])
   \<and> validateDateRange ''2022-01-01'' ''2024-01-01'' = None
   \<and> validateDateRange ''2024-02-29'' ''2024-02-29'' = None
   \<and> validateDateRange ''2023-02-29'' ''2023-03-01'' \<noteq> None"
proof -
  have v1: "validateDateRange ''2024-06-01'' ''2024-01-01''
      = Some (Errorf ''until_date must be after since_date'' None)"
    by code_simp
  have v2: "validateDateRange ''2022-01-01'' ''2024-06-01''
      = Some (Errorf ''date range too large (max 2 years), consider using a smaller range for better performance'' None)"
    by code_simp
  have a1: "string_arg (example_args ''2024-06-01'' ''2024-01-01'') ''budget_id'' = Some ''b'' \<and> ''b'' \<noteq> ''''
       \<and> string_arg (example_args ''2024-06-01'' ''2024-01-01'') ''since_date'' = Some ''2024-06-01''
       \<and> ''2024-06-01'' \<noteq> ''''
       \<and> string_arg (example_args ''2024-06-01'' ''2024-01-01'') ''until_date'' = Some ''2024-01-01''
       \<and> ''2024-01-01'' \<noteq> ''''
       \<and> validateDateRange ''2024-06-01'' ''2024-01-01''
          = Some (Errorf ''until_date must be after since_date'' None)"
    by (simp add: v1) (simp add: example_args_def string_arg_def)
  have a2: "string_arg (example_args ''2022-01-01'' ''2024-06-01'') ''budget_id'' = Some ''b'' \<and> ''b'' \<noteq> ''''
       \<and> string_arg (example_args ''2022-01-01'' ''2024-06-01'') ''since_date'' = Some ''2022-01-01''
       \<and> ''2022-01-01'' \<noteq> ''''
       \<and> string_arg (example_args ''2022-01-01'' ''2024-06-01'') ''until_date'' = Some ''2024-06-01''
       \<and> ''2024-06-01'' \<noteq> ''''
       \<and> validateDateRange ''2022-01-01'' ''2024-06-01''
          = Some (Errorf ''date range too large (max 2 years), consider using a smaller range for better performance'' None)"
    by (simp add: v2) (simp add: example_args_def string_arg_def)
  have p1: "parseDate ''2022-01-01'' = Inr \<lparr>year = 2022, month = 1, day = 1\<rparr>"
    and p2: "parseDate ''2024-01-01'' = Inr \<lparr>year = 2024, month = 1, day = 1\<rparr>"
    and p3: "parseDate ''2024-02-29'' = Inr \<lparr>year = 2024, month = 2, day = 29\<rparr>"
    and p4: "parseDate ''2023-02-29'' = Inl (wrapf ''invalid date format, expected YYYY-MM-DD: ''
        (Errorf ''parsing time 2023-02-29: day out of range'' None))"
    by code_simp+
  have d: "absDays \<lparr>year = 2024, month = 1, day = 1\<rparr> - absDays \<lparr>year = 2022, month = 1, day = 1\<rparr> = 730"
    by code_simp
  note t1 = date_range_validation [where s = "''2024-06-01''" and u = "''2024-01-01''"
      and args = "example_args ''2024-06-01'' ''2024-01-01''" and budgetID = "''b''"
      and err = "Errorf ''until_date must be after since_date'' None"
      and rt = "example_ledger []" and c = example_client and sortc = example_sort
      and sortp = example_sort and keys = "[]"]
  note t2 = date_range_validation [where s = "''2022-01-01''" and u = "''2024-06-01''"
      and args = "example_args ''2022-01-01'' ''2024-06-01''" and budgetID = "''b''"
      and err = "Errorf ''date range too large (max 2 years), consider using a smaller range for better performance'' None"
      and rt = "example_ledger []" and c = example_client and sortc = example_sort
      and sortp = example_sort and keys = "[]"]
  note t3 = date_range_validation [where s = "''2022-01-01''" and u = "''2024-01-01''", THEN conjunct1]
  note t4 = date_range_validation [where s = "''2024-02-29''"
      and ds = "\<lparr>year = 2024, month = 2, day = 29\<rparr>", THEN conjunct2, THEN conjunct1]
  note t5 = date_range_validation [where s = "''2023-02-29''" and u = "''2023-03-01''", THEN conjunct1]
  have r1: "NewGetSpendingByCategoryTool_handler (example_ledger []) example_client example_sort []
      (Some (example_args ''2024-06-01'' ''2024-01-01''))
     = (ToolResultError ''until_date must be after since_date'', [])"
    using t1 a1 by simp
  have r2: "NewGetPayeeSummaryTool_handler (example_ledger []) example_client amd64_overflow example_sort []
      (Some (example_args ''2022-01-01'' ''2024-06-01''))
     = (ToolResultError ''date range too large (max 2 years), consider using a smaller range for better performance'', [])"
    using t2 a2 by simp
  have r3: "validateDateRange ''2022-01-01'' ''2024-01-01'' = None"
    using t3 d by (simp add: p1 p2)
  have r4: "validateDateRange ''2024-02-29'' ''2024-02-29'' = None"
    using t4 p3 by simp
  have r5: "validateDateRange ''2023-02-29'' ''2023-03-01'' \<noteq> None"
    using t5 by (simp add: p4)
  from r1 r2 r3 r4 r5 show ?thesis by simp
qed


section \<open>C9: the payee summary\<close>

lemma payee_step_cases:
  "payee_step m tx = m
   \<or> (\<exists>s'. \<not> isTransfer tx \<and> \<not> tx_Deleted tx
         \<and> payee_step m tx = m(payee_key tx \<mapsto> s')
         \<and> ps_PayeeID s' = (case m (payee_key tx) of None \<Rightarrow> payee_key tx | Some s \<Rightarrow> ps_PayeeID s)
         \<and> ps_PayeeName s'
             = (case m (payee_key tx) of
                  None \<Rightarrow> if payee_key tx = ''no-payee'' then ''No Payee'' else tx_PayeeName tx
                | Some s \<Rightarrow> ps_PayeeName s))"
proof (cases "isTransfer tx \<or> tx_Deleted tx")
  case True
  then show ?thesis by (auto simp add: payee_step_def)
next
  case False
  define s' where "s' = the (payee_step m tx (payee_key tx))"
  have 1: "payee_step m tx = m(payee_key tx \<mapsto> s')"
    using False by (simp add: s'_def payee_step_def Let_def)
  have 2: "ps_PayeeID s' = (case m (payee_key tx) of None \<Rightarrow> payee_key tx | Some s \<Rightarrow> ps_PayeeID s)"
    using False by (simp add: s'_def payee_step_def Let_def split: option.split)
  have 3: "ps_PayeeName s'
      = (case m (payee_key tx) of
           None \<Rightarrow> if payee_key tx = ''no-payee'' then ''No Payee'' else tx_PayeeName tx
         | Some s \<Rightarrow> ps_PayeeName s)"
    using False by (simp add: s'_def payee_step_def Let_def split: option.split)
  from False 1 2 3 show ?thesis by blast
qed

lemma payee_step_named:
  assumes "payee_named m"
  shows "payee_named (payee_step m tx)"
  using payee_step_cases [of m tx]
proof
  assume "payee_step m tx = m"
  then show ?thesis using assms by (simp only:)
next
  assume "\<exists>s'. \<not> isTransfer tx \<and> \<not> tx_Deleted tx
         \<and> payee_step m tx = m(payee_key tx \<mapsto> s')
         \<and> ps_PayeeID s' = (case m (payee_key tx) of None \<Rightarrow> payee_key tx | Some s \<Rightarrow> ps_PayeeID s)
         \<and> ps_PayeeName s'
             = (case m (payee_key tx) of
                  None \<Rightarrow> if payee_key tx = ''no-payee'' then ''No Payee'' else tx_PayeeName tx
                | Some s \<Rightarrow> ps_PayeeName s)"
  then obtain s' where b: "payee_step m tx = m(payee_key tx \<mapsto> s')"
      "ps_PayeeID s' = (case m (payee_key tx) of None \<Rightarrow> payee_key tx | Some s \<Rightarrow> ps_PayeeID s)"
      "ps_PayeeName s'
          = (case m (payee_key tx) of
               None \<Rightarrow> if payee_key tx = ''no-payee'' then ''No Payee'' else tx_PayeeName tx
             | Some s \<Rightarrow> ps_PayeeName s)"
    by blast
  have new: "ps_PayeeID s' = payee_key tx \<and> (payee_key tx = ''no-payee'' \<longrightarrow> ps_PayeeName s' = ''No Payee'')"
  proof (cases "m (payee_key tx)")
    case None
    then show ?thesis using b(2,3) by simp
  next
    case (Some s)
    then have "ps_PayeeID s = payee_key tx \<and> (payee_key tx = ''no-payee'' \<longrightarrow> ps_PayeeName s = ''No Payee'')"
      using assms unfolding payee_named_def by blast
    then show ?thesis using b(2,3) Some by simp
  qed
  show ?thesis
    unfolding payee_named_def b(1)
  proof (intro allI impI)
    fix k s
    assume a: "(m(payee_key tx \<mapsto> s')) k = Some s"
    show "ps_PayeeID s = k \<and> (k = ''no-payee'' \<longrightarrow> ps_PayeeName s = ''No Payee'')"
    proof (cases "k = payee_key tx")
      case True
      then have "s = s'" using a by simp
      then show ?thesis using new True by (simp only:) simp
    next
      case False
      then have "m k = Some s" using a by simp
      then show ?thesis using assms unfolding payee_named_def by blast
    qed
  qed
qed

lemma payee_fold_named: "payee_named m \<Longrightarrow> payee_named (foldl payee_step m txs)"
  by (induction txs arbitrary: m) (simp_all add: payee_step_named)

lemma aggregateByPayee_named: "payee_named (aggregateByPayee txs)"
  unfolding aggregateByPayee_def by (rule payee_fold_named) (simp add: payee_named_def)

lemma payee_step_dom_mono: "dom m \<subseteq> dom (payee_step m tx)"
  using payee_step_cases [of m tx] by auto

lemma payee_fold_dom_mono: "dom m \<subseteq> dom (foldl payee_step m txs)"
proof (induction txs arbitrary: m)
  case Nil
  show ?case by simp
next
  case (Cons tx txs)
  have "dom m \<subseteq> dom (payee_step m tx)" by (rule payee_step_dom_mono)
  also have "\<dots> \<subseteq> dom (foldl payee_step (payee_step m tx) txs)" by (rule Cons.IH)
  finally show ?case by simp
qed

lemma payee_step_counted_key:
  "\<not> tx_Deleted tx \<Longrightarrow> tx_TransferAccountID tx = '''' \<Longrightarrow> payee_key tx \<in> dom (payee_step m tx)"
  by (simp add: payee_step_def isTransfer_def Let_def)

lemma payee_fold_counted_key:
  assumes "tx \<in> set txs" and "\<not> tx_Deleted tx" and "tx_TransferAccountID tx = ''''"
  shows "payee_key tx \<in> dom (foldl payee_step m txs)"
  using assms(1)
proof (induction txs arbitrary: m)
  case Nil
  then show ?case by simp
next
  case (Cons a txs)
  show ?case
  proof (cases "tx = a")
    case True
    have "payee_key tx \<in> dom (payee_step m a)"
      unfolding True [symmetric] using assms(2,3) by (rule payee_step_counted_key)
    then show ?thesis
      using payee_fold_dom_mono [of "payee_step m a" txs] by auto
  next
    case False
    then have "tx \<in> set txs" using Cons.prems by simp
    then show ?thesis using Cons.IH by simp
  qed
qed

lemma range_values_subset: "set (range_values m keys) \<subseteq> ran m"
  by (auto simp add: range_values_def map_filter_def ran_def)

lemma insert_by_mset: "mset (insert_by lt x ys) = add_mset x (mset ys)"
  by (induction ys) simp_all

lemma example_sort_mset: "mset (example_sort lt xs) = mset xs"
  unfolding example_sort_def by (induction xs) (simp_all add: insert_by_mset)

lemma insert_by_sorted:
  fixes f :: "'a \<Rightarrow> rat"
  assumes "sorted_wrt (\<lambda>a b. f b \<le> f a) ys"
  shows "sorted_wrt (\<lambda>a b. f b \<le> f a) (insert_by (\<lambda>a b. f b < f a) x ys)"
  using assms
proof (induction ys)
  case Nil
  then show ?case by simp
next
  case (Cons y ys)
  have set: "set (insert_by (\<lambda>a b. f b < f a) x ys) = insert x (set ys)"
    using insert_by_mset [of "\<lambda>a b. f b < f a" x ys] by (metis set_mset_add_mset_insert set_mset_mset)
  show ?case
  proof (cases "f y < f x")
    case True
    then show ?thesis using Cons.prems by auto
  next
    case False
    then show ?thesis using Cons.prems Cons.IH by (auto simp add: set)
  qed
qed

lemma example_sort_sorted:
  fixes f :: "'a \<Rightarrow> rat"
  shows "sorted_wrt (\<lambda>a b. f b \<le> f a) (example_sort (\<lambda>a b. f b < f a) xs)"
  unfolding example_sort_def by (induction xs) (simp_all add: insert_by_sorted)

lemma payee_topN_ge_1: "1 \<le> sint (payee_topN int_overflow args)"
  by (simp add: payee_topN_def Let_def split: option.split)

lemma payee_topN_value:
  "sint (payee_topN int_overflow args) =
     (case float_arg args ''top_n'' of
        None \<Rightarrow> 20
      | Some x \<Rightarrow>
          (let n = (if - (2 ^ 63) \<le> trunc_toward_zero x \<and> trunc_toward_zero x < 2 ^ 63
                    then trunc_toward_zero x else sint (int_overflow x))
           in if n < 1 then 20 else n))"
proof (cases "float_arg args ''top_n''")
  case None
  then show ?thesis by (simp add: payee_topN_def)
next
  case (Some x)
  show ?thesis
  proof (cases "- (2 ^ 63) \<le> trunc_toward_zero x \<and> trunc_toward_zero x < 2 ^ 63")
    case True
    then have "int_of_f64 int_overflow x = word_of_int (trunc_toward_zero x)"
      by (simp add: int_of_f64_def int64_of_f64_def Let_def)
    moreover have "sint (word_of_int (trunc_toward_zero x) :: int64) = trunc_toward_zero x"
      using True by (simp add: sint_word_of_int_64)
    ultimately show ?thesis
      using Some True by (simp add: payee_topN_def Let_def)
  next
    case False
    then have "int_of_f64 int_overflow x = int_overflow x"
      by (auto simp add: int_of_f64_def int64_of_f64_def Let_def)
    then show ?thesis
      using Some False by (auto simp add: payee_topN_def Let_def)
  qed
qed

lemma example_ledger_list:
  "s \<noteq> '''' \<Longrightarrow>
   ListTransactions (example_ledger txs) example_client b (Some \<lparr>SinceDate = s, Type = ''''\<rparr>)
     = (Inr txs, [HttpDo (the_request example_client ''GET''
                    (''/budgets/'' @ b @ ''/transactions?since_date='' @ s) None False)])"
  by (simp add: ListTransactions_def query_suffix_def get_def doRequest_def
      doRequest_loop.simps [of _ _ _ _ _ _ 0] maxRetries_def doRequest_attempt_def
      example_ledger_def example_runtime_def StatusTooManyRequests_def)


lemma payee_handler_result:
  assumes "string_arg args ''budget_id'' = Some budgetID" and "budgetID \<noteq> ''''"
    and "string_arg args ''since_date'' = Some s" and "s \<noteq> ''''"
    and "string_arg args ''until_date'' = Some u" and "u \<noteq> ''''"
    and "validateDateRange s u = None"
    and "ListTransactions rt c budgetID (Some \<lparr>SinceDate = s, Type = ''''\<rparr>) = (Inr txs, trace)"
  shows "NewGetPayeeSummaryTool_handler rt c int_overflow sort_Slice keys (Some args) =
     (ToolResultText
        \<lparr>pr_payees = take (nat (sint (payee_topN int_overflow args)))
                        (sort_Slice (\<lambda>a b. ps_TotalOutflow b < ps_TotalOutflow a)
                           (range_values (aggregateByPayee (until_filter u txs)) keys)),
         pr_since = s, pr_until = u\<rparr>, trace)"
proof -
  have cut: "(if n < int (length xs) then take (nat n) xs else xs) = take (nat n) xs"
    for xs :: "payeeSummary list" and n :: int
    by simp
  show ?thesis
    by (simp add: NewGetPayeeSummaryTool_handler_def assms Let_def cut del: take_all_iff)
qed

text \<open>
  C9, as the claim states it, fails. With \<open>top_n = 0\<close> a minimum of 1 on the supplied
  value would leave at most one bucket; the handler sets \<open>topN\<close> to 20 instead and returns
  both buckets of the example.
\<close>

theorem payee_summary_top_n_counterexample:
  "payee_topN amd64_overflow ((example_args ''2024-01-01'' ''2024-12-31'')(''top_n'' \<mapsto> NumberArg 0)) = 20
   \<and> max 1 (trunc_toward_zero 0) = 1
   \<and> length (result_payees (fst (NewGetPayeeSummaryTool_handler
        (example_ledger [example_tx ''t1'' ''2024-03-05'' (- 45670) ''p1'' ''food'',
                         example_tx ''t2'' ''2024-03-06'' (- 100000) '''' ''food''])
        example_client amd64_overflow example_sort [''p1'', ''no-payee'']
        (Some ((example_args ''2024-01-01'' ''2024-12-31'')(''top_n'' \<mapsto> NumberArg 0)))))) = 2"
proof -
  let ?args = "(example_args ''2024-01-01'' ''2024-12-31'')(''top_n'' \<mapsto> NumberArg 0)"
  let ?txs = "[example_tx ''t1'' ''2024-03-05'' (- 45670) ''p1'' ''food'',
               example_tx ''t2'' ''2024-03-06'' (- 100000) '''' ''food'']"
  have n: "payee_topN amd64_overflow ?args = 20"
    by (simp add: payee_topN_def float_arg_def example_args_def int_of_f64_def int64_of_f64_def
        trunc_toward_zero_def)
  have v: "validateDateRange ''2024-01-01'' ''2024-12-31'' = None"
    by code_simp
  have l: "ListTransactions (example_ledger ?txs) example_client ''b''
      (Some \<lparr>SinceDate = ''2024-01-01'', Type = ''''\<rparr>)
    = (Inr ?txs, [HttpDo (the_request example_client ''GET''
                    (''/budgets/'' @ ''b'' @ ''/transactions?since_date='' @ ''2024-01-01'') None False)])"
    by (rule example_ledger_list) simp
  have r: "NewGetPayeeSummaryTool_handler (example_ledger ?txs) example_client amd64_overflow example_sort
      [''p1'', ''no-payee''] (Some ?args) =
     (ToolResultText
        \<lparr>pr_payees = take (nat (sint (payee_topN amd64_overflow ?args)))
                        (example_sort (\<lambda>a b. ps_TotalOutflow b < ps_TotalOutflow a)
                           (range_values (aggregateByPayee (until_filter ''2024-12-31'' ?txs))
                              [''p1'', ''no-payee''])),
         pr_since = ''2024-01-01'', pr_until = ''2024-12-31''\<rparr>,
      [HttpDo (the_request example_client ''GET''
                    (''/budgets/'' @ ''b'' @ ''/transactions?since_date='' @ ''2024-01-01'') None False)])"
    by (rule payee_handler_result [OF _ _ _ _ _ _ v l])
       (simp_all add: string_arg_def example_args_def)
  have e: "length (take 20 (example_sort (\<lambda>a b. ps_TotalOutflow b < ps_TotalOutflow a)
                           (range_values (aggregateByPayee (until_filter ''2024-12-31'' ?txs))
                              [''p1'', ''no-payee'']))) = 2"
    by code_simp
  have "length (result_payees (fst (NewGetPayeeSummaryTool_handler (example_ledger ?txs) example_client
      amd64_overflow example_sort [''p1'', ''no-payee''] (Some ?args)))) = 2"
    unfolding r n using e by (simp add: result_payees_def)
  then show ?thesis
    using n by (simp add: trunc_toward_zero_def)
qed

text \<open>
  C9, amended. When the arguments are complete, the range is valid and the listing
  succeeds, the payee handler returns the buckets in an order that is descending by
  \<open>TotalOutflow\<close>, cut to the first \<open>N\<close>. \<open>N\<close> is 20 when \<open>top_n\<close> is absent or not a
  number, and otherwise it is \<open>int(top_n)\<close>, replaced by 20 when that is below 1;
  \<open>int(top_n)\<close> is the integer part of \<open>top_n\<close> when that fits the 64-bit \<open>int\<close>, from
  \<open>-2^63\<close> to \<open>2^63 - 1\<close>, and whatever 64-bit value the implementation's conversion gives
  for a \<open>top_n\<close> beyond this range. So \<open>N\<close> is never below 1 and always below \<open>2^63\<close>.
  A bucket with ID \<open>no-payee\<close> has the name "No Payee", and every counted transaction with
  an empty payee ID is in that bucket. (\<open>sort.Slice\<close> is any function that permutes a slice
  into an order in which no element is less than an earlier one.)
\<close>

theorem payee_summary_is_sorted_and_cut:
  assumes "string_arg args ''budget_id'' = Some budgetID" and "budgetID \<noteq> ''''"
    and "string_arg args ''since_date'' = Some s" and "s \<noteq> ''''"
    and "string_arg args ''until_date'' = Some u" and "u \<noteq> ''''"
    and "validateDateRange s u = None"
    and "ListTransactions rt c budgetID (Some \<lparr>SinceDate = s, Type = ''''\<rparr>) = (Inr txs, trace)"
    and "\<And>xs. mset (sort_Slice (\<lambda>a b. ps_TotalOutflow b < ps_TotalOutflow a) xs) = mset xs"
    and "\<And>xs. sorted_wrt (\<lambda>a b. ps_TotalOutflow b \<le> ps_TotalOutflow a)
                 (sort_Slice (\<lambda>a b. ps_TotalOutflow b < ps_TotalOutflow a) xs)"
  shows "NewGetPayeeSummaryTool_handler rt c int_overflow sort_Slice keys (Some args) =
     (ToolResultText
        \<lparr>pr_payees = take (nat (sint (payee_topN int_overflow args)))
                        (sort_Slice (\<lambda>a b. ps_TotalOutflow b < ps_TotalOutflow a)
                           (range_values (aggregateByPayee (until_filter u txs)) keys)),
         pr_since = s, pr_until = u\<rparr>, trace)
   \<and> sorted_wrt (\<lambda>a b. ps_TotalOutflow b \<le> ps_TotalOutflow a)
        (result_payees (fst (NewGetPayeeSummaryTool_handler rt c int_overflow sort_Slice keys (Some args))))
   \<and> int (length (result_payees (fst (NewGetPayeeSummaryTool_handler rt c int_overflow sort_Slice keys
                                        (Some args)))))
        \<le> sint (payee_topN int_overflow args)
   \<and> sint (payee_topN int_overflow args) =
       (case float_arg args ''top_n'' of
          None \<Rightarrow> 20
        | Some x \<Rightarrow>
            (let n = (if - (2 ^ 63) \<le> trunc_toward_zero x \<and> trunc_toward_zero x < 2 ^ 63
                      then trunc_toward_zero x else sint (int_overflow x))
             in if n < 1 then 20 else n))
   \<and> 1 \<le> sint (payee_topN int_overflow args)
   \<and> sint (payee_topN int_overflow args) < 2 ^ 63
   \<and> (\<forall>p\<in>set (result_payees (fst (NewGetPayeeSummaryTool_handler rt c int_overflow sort_Slice keys
                                      (Some args)))).
         ps_PayeeID p = ''no-payee'' \<longrightarrow> ps_PayeeName p = ''No Payee'')
   \<and> (\<forall>tx\<in>set (until_filter u txs).
         \<not> tx_Deleted tx \<and> tx_TransferAccountID tx = '''' \<and> tx_PayeeID tx = '''' \<longrightarrow>
         (\<exists>b. aggregateByPayee (until_filter u txs) ''no-payee'' = Some b
               \<and> ps_PayeeName b = ''No Payee''))"
proof -
  let ?lt = "\<lambda>a b. ps_TotalOutflow b < ps_TotalOutflow a"
  let ?m = "aggregateByPayee (until_filter u txs)"
  let ?sorted = "sort_Slice ?lt (range_values ?m keys)"
  let ?N = "sint (payee_topN int_overflow args)"
  have r: "NewGetPayeeSummaryTool_handler rt c int_overflow sort_Slice keys (Some args) =
     (ToolResultText \<lparr>pr_payees = take (nat ?N) ?sorted, pr_since = s, pr_until = u\<rparr>, trace)"
    by (rule payee_handler_result [OF assms(1-8)])
  have ps: "result_payees (fst (NewGetPayeeSummaryTool_handler rt c int_overflow sort_Slice keys (Some args)))
      = take (nat ?N) ?sorted"
    by (simp add: r result_payees_def)
  have srt: "sorted_wrt (\<lambda>a b. ps_TotalOutflow b \<le> ps_TotalOutflow a) (take (nat ?N) ?sorted)"
    using assms(10) [of "range_values ?m keys"] by (rule sorted_wrt_take)
  have len: "int (length (take (nat ?N) ?sorted)) \<le> ?N"
    using payee_topN_ge_1 [of int_overflow args] by simp
  have top: "?N < 2 ^ 63"
    using sint_lt [of "payee_topN int_overflow args"] by simp
  have sub: "set (take (nat ?N) ?sorted) \<subseteq> ran ?m"
  proof -
    have "set (take (nat ?N) ?sorted) \<subseteq> set ?sorted"
      by (rule set_take_subset)
    also have "set ?sorted = set (range_values ?m keys)"
      using assms(9) [of "range_values ?m keys"] by (rule mset_eq_setD)
    also have "\<dots> \<subseteq> ran ?m"
      by (rule range_values_subset)
    finally show ?thesis .
  qed
  have named: "payee_named ?m"
    by (rule aggregateByPayee_named)
  have np: "ps_PayeeName p = ''No Payee''"
    if "p \<in> set (take (nat ?N) ?sorted)" and "ps_PayeeID p = ''no-payee''" for p
  proof -
    from that(1) sub obtain k where k: "?m k = Some p"
      by (auto simp add: ran_def)
    then have "ps_PayeeID p = k \<and> (k = ''no-payee'' \<longrightarrow> ps_PayeeName p = ''No Payee'')"
      using named unfolding payee_named_def by blast
    then show ?thesis using that(2) by simp
  qed
  have bucket: "\<exists>b. ?m ''no-payee'' = Some b \<and> ps_PayeeName b = ''No Payee''"
    if "tx \<in> set (until_filter u txs)" and "\<not> tx_Deleted tx" and "tx_TransferAccountID tx = ''''"
      and "tx_PayeeID tx = ''''" for tx
  proof -
    have "payee_key tx \<in> dom ?m"
      unfolding aggregateByPayee_def using that(1-3) by (rule payee_fold_counted_key)
    moreover have "payee_key tx = ''no-payee''"
      using that(4) by (simp add: payee_key_def)
    ultimately obtain b where b: "?m ''no-payee'' = Some b" by auto
    then have "ps_PayeeName b = ''No Payee''"
      using named unfolding payee_named_def by blast
    with b show ?thesis by simp
  qed
  show ?thesis
    unfolding ps
  proof (intro conjI ballI impI)
    show "NewGetPayeeSummaryTool_handler rt c int_overflow sort_Slice keys (Some args) =
      (ToolResultText \<lparr>pr_payees = take (nat ?N) ?sorted, pr_since = s, pr_until = u\<rparr>, trace)"
      by (rule r)
    show "sorted_wrt (\<lambda>a b. ps_TotalOutflow b \<le> ps_TotalOutflow a) (take (nat ?N) ?sorted)"
      by (rule srt)
    show "int (length (take (nat ?N) ?sorted)) \<le> ?N"
      by (rule len)
    show "?N = (case float_arg args ''top_n'' of
          None \<Rightarrow> 20
        | Some x \<Rightarrow>
            (let n = (if - (2 ^ 63) \<le> trunc_toward_zero x \<and> trunc_toward_zero x < 2 ^ 63
                      then trunc_toward_zero x else sint (int_overflow x))
             in if n < 1 then 20 else n))"
      by (rule payee_topN_value)
    show "1 \<le> ?N"
      by (rule payee_topN_ge_1)
    show "?N < 2 ^ 63"
      by (rule top)
  next
    fix p
    assume "p \<in> set (take (nat ?N) ?sorted)" and "ps_PayeeID p = ''no-payee''"
    then show "ps_PayeeName p = ''No Payee''" by (rule np)
  next
    fix tx
    assume "tx \<in> set (until_filter u txs)"
      and "\<not> tx_Deleted tx \<and> tx_TransferAccountID tx = '''' \<and> tx_PayeeID tx = ''''"
    then show "\<exists>b. ?m ''no-payee'' = Some b \<and> ps_PayeeName b = ''No Payee''"
      using bucket by blast
  qed
qed

theorem payee_summary_is_sorted_and_cut_witness:
  "result_payees (fst (NewGetPayeeSummaryTool_handler
        (example_ledger [example_tx ''t1'' ''2024-03-05'' (- 45670) ''p1'' ''food'',
                         example_tx ''t2'' ''2024-03-06'' (- 100000) '''' ''food''])
        example_client amd64_overflow example_sort [''p1'', ''no-payee'']
        (Some ((example_args ''2024-01-01'' ''2024-12-31'')(''top_n'' \<mapsto> NumberArg 1)))))
   = [\<lparr>ps_PayeeID = ''no-payee'', ps_PayeeName = ''No Payee'', ps_TotalOutflow = 100,
       ps_TotalInflow = 0, ps_Net = - 100, ps_TransactionCount = 1\<rparr>]
   \<and> sint (payee_topN amd64_overflow
        ((example_args ''2024-01-01'' ''2024-12-31'')(''top_n'' \<mapsto> NumberArg 9300000000000000000)))
     = 20"
proof -
  let ?args = "(example_args ''2024-01-01'' ''2024-12-31'')(''top_n'' \<mapsto> NumberArg 1)"
  let ?big = "(example_args ''2024-01-01'' ''2024-12-31'')(''top_n'' \<mapsto> NumberArg 9300000000000000000)"
  let ?txs = "[example_tx ''t1'' ''2024-03-05'' (- 45670) ''p1'' ''food'',
               example_tx ''t2'' ''2024-03-06'' (- 100000) '''' ''food'']"
  have a: "string_arg ?args ''budget_id'' = Some ''b''" "''b'' \<noteq> ''''"
      "string_arg ?args ''since_date'' = Some ''2024-01-01''" "''2024-01-01'' \<noteq> ''''"
      "string_arg ?args ''until_date'' = Some ''2024-12-31''" "''2024-12-31'' \<noteq> ''''"
    by (simp_all add: string_arg_def example_args_def)
  have b: "string_arg ?big ''budget_id'' = Some ''b''"
      "string_arg ?big ''since_date'' = Some ''2024-01-01''"
      "string_arg ?big ''until_date'' = Some ''2024-12-31''"
    by (simp_all add: string_arg_def example_args_def)
  have v: "validateDateRange ''2024-01-01'' ''2024-12-31'' = None"
    by code_simp
  have l: "ListTransactions (example_ledger ?txs) example_client ''b''
      (Some \<lparr>SinceDate = ''2024-01-01'', Type = ''''\<rparr>)
    = (Inr ?txs, [HttpDo (the_request example_client ''GET''
                    (''/budgets/'' @ ''b'' @ ''/transactions?since_date='' @ ''2024-01-01'') None False)])"
    by (rule example_ledger_list) simp
  have n: "payee_topN amd64_overflow ?args = 1"
    by (simp add: payee_topN_def float_arg_def example_args_def int_of_f64_def int64_of_f64_def
        trunc_toward_zero_def)
  have e: "take 1 (example_sort (\<lambda>a b. ps_TotalOutflow b < ps_TotalOutflow a)
                           (range_values (aggregateByPayee (until_filter ''2024-12-31'' ?txs))
                              [''p1'', ''no-payee'']))
     = [\<lparr>ps_PayeeID = ''no-payee'', ps_PayeeName = ''No Payee'', ps_TotalOutflow = 100,
       ps_TotalInflow = 0, ps_Net = - 100, ps_TransactionCount = 1\<rparr>]"
    by code_simp
  note t = payee_summary_is_sorted_and_cut [where sort_Slice = example_sort
      and keys = "[''p1'', ''no-payee'']" and int_overflow = amd64_overflow, OF a v l example_sort_mset
      example_sort_sorted [of ps_TotalOutflow], THEN conjunct1]
  note t4 = payee_summary_is_sorted_and_cut [where sort_Slice = example_sort
      and keys = "[''p1'', ''no-payee'']" and int_overflow = amd64_overflow and args = ?big,
      OF b(1) a(2) b(2) a(4) b(3) a(6) v l example_sort_mset
      example_sort_sorted [of ps_TotalOutflow], THEN conjunct2, THEN conjunct2, THEN conjunct2,
      THEN conjunct1]
  have f: "float_arg ?big ''top_n'' = Some 9300000000000000000"
    by (simp add: float_arg_def)
  have first: "result_payees (fst (NewGetPayeeSummaryTool_handler (example_ledger ?txs) example_client
      amd64_overflow example_sort [''p1'', ''no-payee''] (Some ?args)))
   = [\<lparr>ps_PayeeID = ''no-payee'', ps_PayeeName = ''No Payee'', ps_TotalOutflow = 100,
       ps_TotalInflow = 0, ps_Net = - 100, ps_TransactionCount = 1\<rparr>]"
    unfolding t n using e by (simp add: result_payees_def)
  have second: "sint (payee_topN amd64_overflow ?big) = 20"
    unfolding t4 f by (simp add: trunc_toward_zero_def amd64_overflow_def Let_def)
  from first second show ?thesis by (rule conjI)
qed


end
